theory Spec2Isabelle
  imports Complex_Main "HOL-Library.Sublist" "HOL-Library.AList"
begin

section \<open>Resume scoring engine: shallow embedding of main/utils.py and main/score_utils.py\<close>

text \<open>
  The repository holds two parallel implementations of the scoring engine,
  \<^verbatim>\<open>main/utils.py\<close> (the one \<^verbatim>\<open>main/views.py\<close> imports) and
  \<^verbatim>\<open>main/score_utils.py\<close>. A definition that embeds a function of
  \<^verbatim>\<open>utils.py\<close> carries the source's name; where \<^verbatim>\<open>score_utils.py\<close> has a function
  of the same name with a different body, its embedding carries the suffix \<open>_su\<close>.
  \<^verbatim>\<open>normalize_text\<close>, \<^verbatim>\<open>keyword_match_rate\<close>, \<^verbatim>\<open>ats_resume_scoring\<close>,
  \<^verbatim>\<open>ROLE_KEYWORDS\<close> and the role lookup of \<^verbatim>\<open>derive_resume_metrics\<close> are the same
  in both files and are embedded once.

  Conventions of the embedding:
  \<^item> a Python \<^verbatim>\<open>str\<close> is a \<^typ>\<open>string\<close>: a list of characters with code points below
    256. On these code points \<^verbatim>\<open>str.isspace\<close>, \<^verbatim>\<open>str.lower\<close> and the classes
    \<^verbatim>\<open>\s\<close>, \<^verbatim>\<open>\w\<close> of the \<^verbatim>\<open>re\<close> module are written out below. The en dash
    of some message constants of the source lies beyond code point 255; it is written as
    its three UTF-8 bytes (\<open>en_dash\<close>), and no function inspects those constants;
  \<^item> a Python \<^verbatim>\<open>float\<close> is a \<^typ>\<open>real\<close> (no NaN, no infinity, no rounding of
    arithmetic), an \<^verbatim>\<open>int\<close> is an \<^typ>\<open>int\<close>;
  \<^item> an \<^verbatim>\<open>Optional[str]\<close> is a \<^typ>\<open>string option\<close>; an argument annotated
    \<^verbatim>\<open>str\<close> is a \<^typ>\<open>string\<close>, so that \<^verbatim>\<open>x or ""\<close> is \<open>x\<close>;
  \<^item> a \<^verbatim>\<open>dict\<close> whose order matters is an association list in insertion order;
  \<^item> a raise of the source is the \<open>Inl\<close> branch of a sum.
\<close>

subsection \<open>Characters\<close>

text \<open>\<^verbatim>\<open>str.isspace\<close>, which is also the class \<^verbatim>\<open>\s\<close> of \<^verbatim>\<open>re\<close> on \<^verbatim>\<open>str\<close>.\<close>

definition is_space :: "char \<Rightarrow> bool" where
  "is_space c =
     (let n = (of_char c :: nat)
      in (9 \<le> n \<and> n \<le> 13) \<or> (28 \<le> n \<and> n \<le> 32) \<or> n = 133 \<or> n = 160)"

text \<open>
  \<^verbatim>\<open>str.lower\<close> on one character: \<^verbatim>\<open>A\<close>-\<^verbatim>\<open>Z\<close> and the Latin-1 capitals
  (192 to 222 but the multiplication sign 215) move up by 32, every other character stays.
\<close>

definition lower_char :: "char \<Rightarrow> char" where
  "lower_char c =
     (let n = (of_char c :: nat)
      in if (65 \<le> n \<and> n \<le> 90) \<or> (192 \<le> n \<and> n \<le> 222 \<and> n \<noteq> 215)
         then char_of (n + 32) else c)"

definition lower :: "string \<Rightarrow> string" where
  "lower s = map lower_char s"

definition is_digit :: "char \<Rightarrow> bool" where
  "is_digit c = (let n = (of_char c :: nat) in 48 \<le> n \<and> n \<le> 57)"

definition is_ascii_letter :: "char \<Rightarrow> bool" where
  "is_ascii_letter c =
     (let n = (of_char c :: nat) in (65 \<le> n \<and> n \<le> 90) \<or> (97 \<le> n \<and> n \<le> 122))"

text \<open>The class \<^verbatim>\<open>\w\<close>: \<^verbatim>\<open>str.isalnum\<close> or the underscore.\<close>

definition is_word :: "char \<Rightarrow> bool" where
  "is_word c =
     (let n = (of_char c :: nat)
      in (48 \<le> n \<and> n \<le> 57) \<or> (65 \<le> n \<and> n \<le> 90) \<or> n = 95 \<or> (97 \<le> n \<and> n \<le> 122)
         \<or> n = 170 \<or> n = 178 \<or> n = 179 \<or> n = 181 \<or> n = 185 \<or> n = 186
         \<or> (188 \<le> n \<and> n \<le> 190) \<or> (192 \<le> n \<and> n \<le> 214) \<or> (216 \<le> n \<and> n \<le> 246)
         \<or> 248 \<le> n)"

definition en_dash :: string where
  "en_dash = [CHR 0xE2, CHR 0x80, CHR 0x93]"

text \<open>Truth value of an \<^verbatim>\<open>Optional[str]\<close>: \<^verbatim>\<open>None\<close> and the empty string are falsy.\<close>

definition truthy :: "string option \<Rightarrow> bool" where
  "truthy x = (case x of None \<Rightarrow> False | Some s \<Rightarrow> s \<noteq> [])"

text \<open>Python's \<^verbatim>\<open>round\<close> of a float to an int: to the nearest, a tie to the even one.\<close>

definition py_round :: "real \<Rightarrow> int" where
  "py_round x =
     (let f = \<lfloor>x\<rfloor>; d = x - of_int f
      in if d < 1 / 2 then f else if d > 1 / 2 then f + 1 else if even f then f else f + 1)"

subsection \<open>The regular expressions of the \<^verbatim>\<open>re\<close> module that the engine uses\<close>

text \<open>
  A backtracking matcher for the fragment the source's patterns need. A position is the
  character before it (if any, for \<^verbatim>\<open>\b\<close>) and the text after it. \<open>rx_match r pos\<close>
  lists the positions where a match of \<open>r\<close> that starts at \<open>pos\<close> can end, in the order
  in which \<^verbatim>\<open>re\<close> tries them: the left alternative first, an optional item present
  first, a repetition as long as possible first. \<open>Rep n P\<close> is \<^verbatim>\<open>[P]{n,}\<close>: every
  repetition in the source's patterns is over a character class.
\<close>

type_synonym pos = "char option \<times> string"

datatype rx =
    Eps
  | Ch "char \<Rightarrow> bool"
  | Seq rx rx
  | Alt rx rx
  | Opt rx
  | Rep nat "char \<Rightarrow> bool"
  | Wb

fun rx_match :: "rx \<Rightarrow> pos \<Rightarrow> pos list" where
  "rx_match Eps st = [st]"
| "rx_match (Ch P) (p, s) =
     (case s of [] \<Rightarrow> [] | c # cs \<Rightarrow> if P c then [(Some c, cs)] else [])"
| "rx_match (Seq a b) st = concat (map (rx_match b) (rx_match a st))"
| "rx_match (Alt a b) st = rx_match a st @ rx_match b st"
| "rx_match (Opt a) st = rx_match a st @ [st]"
| "rx_match (Rep n P) (p, s) =
     (let k = length (takeWhile P s)
      in map (\<lambda>j. (if j = 0 then p else Some (s ! (j - 1)), drop j s)) (rev [n ..< Suc k]))"
| "rx_match Wb (p, s) =
     (let wl = (case p of None \<Rightarrow> False | Some c \<Rightarrow> is_word c);
          wr = (case s of [] \<Rightarrow> False | c # _ \<Rightarrow> is_word c)
      in if wl \<noteq> wr then [(p, s)] else [])"

text \<open>\<^verbatim>\<open>bool(re.search(r, s))\<close>: some position of \<open>s\<close> starts a match.\<close>

fun rx_search_from :: "rx \<Rightarrow> char option \<Rightarrow> string \<Rightarrow> bool" where
  "rx_search_from r p [] = (rx_match r (p, []) \<noteq> [])"
| "rx_search_from r p (c # cs) =
     (rx_match r (p, c # cs) \<noteq> [] \<or> rx_search_from r (Some c) cs)"

definition re_search :: "rx \<Rightarrow> string \<Rightarrow> bool" where
  "re_search r s = rx_search_from r None s"

text \<open>
  \<^verbatim>\<open>re.findall(r, s)\<close> for a pattern without groups that matches no empty string: the
  matches from left to right, each the first one \<^verbatim>\<open>re\<close> finds at the leftmost position
  that starts one, the scan going on behind it. The counter is the number of characters of
  the last match still to be skipped.
\<close>

fun findall_from :: "rx \<Rightarrow> nat \<Rightarrow> char option \<Rightarrow> string \<Rightarrow> string list" where
  "findall_from r k p [] = []"
| "findall_from r (Suc k) p (c # cs) = findall_from r k (Some c) cs"
| "findall_from r 0 p (c # cs) =
     (case rx_match r (p, c # cs) of
        [] \<Rightarrow> findall_from r 0 (Some c) cs
      | (q, rest) # _ \<Rightarrow>
          (let n = length (c # cs) - length rest
           in take n (c # cs) # findall_from r (n - 1) (Some c) cs))"

definition re_findall :: "rx \<Rightarrow> string \<Rightarrow> string list" where
  "re_findall r s = findall_from r 0 None s"

text \<open>A literal, and a literal under \<^verbatim>\<open>re.I\<close>.\<close>

fun lit :: "string \<Rightarrow> rx" where
  "lit [] = Eps"
| "lit (c # cs) = Seq (Ch (\<lambda>d. d = c)) (lit cs)"

fun ilit :: "string \<Rightarrow> rx" where
  "ilit [] = Eps"
| "ilit (c # cs) = Seq (Ch (\<lambda>d. lower_char d = lower_char c)) (ilit cs)"

fun alts :: "rx list \<Rightarrow> rx" where
  "alts [] = Eps"
| "alts [r] = r"
| "alts (r # rs) = Alt r (alts rs)"

subsection \<open>Grade tags\<close>

text \<open>
  \<^verbatim>\<open>utils.py\<close>, \<^verbatim>\<open>get_grade_tag\<close>: \<^verbatim>\<open>s = float(score or 0)\<close>; a falsy score (zero)
  is replaced by \<open>0\<close>.
\<close>

definition get_grade_tag :: "real \<Rightarrow> string" where
  "get_grade_tag score =
     (let s = (if score = 0 then 0 else score)
      in if s \<ge> 85 then ''Excellent''
         else if s \<ge> 70 then ''Good''
         else if s \<ge> 50 then ''Average''
         else ''Poor'')"

text \<open>\<^verbatim>\<open>score_utils.py\<close>, \<^verbatim>\<open>get_grade_tag\<close>: \<^verbatim>\<open>s = float(score)\<close>.\<close>

definition get_grade_tag_su :: "real \<Rightarrow> string" where
  "get_grade_tag_su score =
     (let s = score
      in if s \<ge> 85 then ''Excellent''
         else if s \<ge> 70 then ''Good''
         else if s \<ge> 50 then ''Average''
         else ''Poor'')"

subsection \<open>Text normalisation and keyword matching (both files)\<close>

text \<open>
  \<^verbatim>\<open>re.sub(r"\s+", " ", t)\<close>: every maximal run of whitespace becomes one space. The
  flag says that the character before belongs to a run already replaced.
\<close>

fun sub_ws :: "bool \<Rightarrow> string \<Rightarrow> string" where
  "sub_ws b [] = []"
| "sub_ws b (c # cs) =
     (if is_space c then (if b then sub_ws True cs else CHR '' '' # sub_ws True cs)
      else c # sub_ws False cs)"

text \<open>\<^verbatim>\<open>str.strip()\<close>.\<close>

definition strip :: "string \<Rightarrow> string" where
  "strip s = rev (dropWhile is_space (rev (dropWhile is_space s)))"

text \<open>\<^verbatim>\<open>normalize_text\<close>: \<^verbatim>\<open>re.sub(r"\s+", " ", (t or "")).strip().lower()\<close>.\<close>

definition normalize_text :: "string \<Rightarrow> string" where
  "normalize_text t = lower (strip (sub_ws False t))"

text \<open>
  \<^verbatim>\<open>keyword_match_rate\<close>; \<^verbatim>\<open>kw.lower() in t\<close> is the substring test
  \<^const>\<open>sublist\<close>.
\<close>

definition keyword_match_rate :: "string \<Rightarrow> string list \<Rightarrow> real" where
  "keyword_match_rate text target_keywords =
     (if target_keywords = [] then 0
      else
        (let t = normalize_text text;
             hits = length (filter (\<lambda>kw. sublist (lower kw) t) target_keywords)
         in real hits / real (max 1 (length target_keywords))))"

definition ROLE_KEYWORDS :: "(string \<times> string list) list" where
  "ROLE_KEYWORDS =
     [(''software engineer'',
         [''python'', ''java'', ''javascript'', ''react'', ''node'', ''docker'', ''kubernetes'',
          ''microservices'', ''rest'', ''graphql'', ''aws'', ''gcp'', ''ci/cd'', ''unit testing'']),
      (''data scientist'',
         [''python'', ''pandas'', ''numpy'', ''sklearn'', ''tensorflow'', ''pytorch'', ''nlp'', ''cv'',
          ''statistics'', ''sql'', ''experiment'', ''a/b testing'', ''data visualization'']),
      (''devops engineer'',
         [''ci/cd'', ''docker'', ''kubernetes'', ''terraform'', ''ansible'', ''aws'', ''gcp'', ''azure'',
          ''monitoring'', ''prometheus'', ''grafana'', ''helm'', ''sre'']),
      (''web developer'',
         [''html'', ''css'', ''javascript'', ''react'', ''next.js'', ''vue'', ''node'', ''express'',
          ''rest'', ''graphql'', ''responsive'', ''seo'']),
      (''mobile app developer'',
         [''android'', ''ios'', ''kotlin'', ''swift'', ''flutter'', ''react native'', ''firebase'',
          ''push notifications'', ''play store'', ''app store'']),
      (''human resources'',
         [''recruitment'', ''onboarding'', ''payroll'', ''employee engagement'', ''hrms'', ''policy'',
          ''compliance'', ''talent acquisition'', ''grievance'', ''training'']),
      (''marketing'',
         [''seo'', ''sem'', ''campaign'', ''content'', ''email marketing'', ''social media'',
          ''analytics'', ''branding'', ''roi'', ''conversion'', ''google ads'']),
      (''sales'',
         [''crm'', ''pipeline'', ''lead generation'', ''negotiation'', ''quota'', ''prospecting'',
          ''closing'', ''upsell'', ''cross-sell'', ''demo'']),
      (''finance'',
         [''budgeting'', ''forecasting'', ''reconciliation'', ''audit'', ''financial analysis'',
          ''p&l'', ''variance'', ''sap'', ''tally'', ''excel'']),
      (''customer service'',
         [''crm'', ''zendesk'', ''freshdesk'', ''sla'', ''csat'', ''ticketing'', ''call handling'',
          ''escalation'', ''knowledge base'', ''communication''])]"

text \<open>
  The three lines of \<^verbatim>\<open>derive_resume_metrics\<close> that compute the metric
  \<^verbatim>\<open>keyword_match_rate\<close> (the other metrics of that function are not embedded):
  \<^verbatim>\<open>
    base_role = next((rk for rk in ROLE_KEYWORDS if rk in (role_title or "").lower()), None)
    kws = ROLE_KEYWORDS.get(base_role, [])
    kmr = keyword_match_rate(resume_text, kws) if kws else 0.0
  \<close>
\<close>

definition derive_resume_metrics_kmr :: "string \<Rightarrow> string \<Rightarrow> real" where
  "derive_resume_metrics_kmr resume_text role_title =
     (let base_role = find (\<lambda>rk. sublist rk (lower role_title)) (map fst ROLE_KEYWORDS);
          kws = (case base_role of
                   None \<Rightarrow> []
                 | Some rk \<Rightarrow> (case map_of ROLE_KEYWORDS rk of None \<Rightarrow> [] | Some ks \<Rightarrow> ks))
      in if kws \<noteq> [] then keyword_match_rate resume_text kws else 0)"

text \<open>
  The same metric in the spec's words: the role is the first catalog entry whose title is a
  substring of the caller's title in lower case; the rate is the fraction of that entry's
  keywords that are substrings of the normalised text, and 0 when no entry is found.
\<close>

definition spec_resolve_role :: "string \<Rightarrow> (string \<times> string list) option" where
  "spec_resolve_role role_title =
     find (\<lambda>entry. sublist (fst entry) (lower role_title)) ROLE_KEYWORDS"

definition spec_keyword_match_rate :: "string \<Rightarrow> string \<Rightarrow> real" where
  "spec_keyword_match_rate resume_text role_title =
     (case spec_resolve_role role_title of
        None \<Rightarrow> 0
      | Some entry \<Rightarrow>
          real (length (filter (\<lambda>kw. sublist kw (normalize_text resume_text)) (snd entry)))
            / real (length (snd entry)))"

subsection \<open>The resume-content rubric (\<^verbatim>\<open>ats_resume_scoring\<close>, both files)\<close>

text \<open>
  The metrics dictionary: a key may be missing (\<open>None\<close>), and the source reads every key
  with \<^verbatim>\<open>metrics.get\<close> and a default.
\<close>

record metrics =
  m_sections_present :: "bool option"
  m_single_column :: "bool option"
  m_text_extractable :: "bool option"
  m_action_verbs_per_bullet :: "real option"
  m_quantified_bullets_ratio :: "real option"
  m_keyword_match_rate :: "real option"
  m_pages :: "int option"
  m_avg_bullets_per_job :: "real option"
  m_repetition_rate :: "real option"
  m_jargon_rate :: "real option"
  m_unique_skills_count :: "int option"

record item =
  item_name :: string
  item_earned :: int
  item_max :: int

record breakdown =
  items :: "item list"
  subtotal_earned :: int
  subtotal_max :: int
  score_100 :: int

text \<open>\<^verbatim>\<open>metrics.get(key, default)\<close> and \<^verbatim>\<open>int(bool(metrics.get(key)))\<close>.\<close>

definition get_or :: "'a option \<Rightarrow> 'a \<Rightarrow> 'a" where
  "get_or x d = (case x of None \<Rightarrow> d | Some v \<Rightarrow> v)"

definition int_bool :: "bool option \<Rightarrow> int" where
  "int_bool x = (case x of Some True \<Rightarrow> 1 | _ \<Rightarrow> 0)"

text \<open>
  \<^verbatim>\<open>ats_resume_scoring\<close>. The thresholds are the decimal fractions the source writes
  (\<^verbatim>\<open>0.8\<close> is \<open>8 / 10\<close>); \<^verbatim>\<open>total += pts\<close> starts from 0.
\<close>

definition ats_resume_scoring :: "metrics \<Rightarrow> breakdown" where
  "ats_resume_scoring m =
     (let MAX_ATS = 15;
          pts_layout = int_bool (m_sections_present m) + int_bool (m_single_column m)
                       + int_bool (m_text_extractable m);
          av = get_or (m_action_verbs_per_bullet m) 0;
          qr = get_or (m_quantified_bullets_ratio m) 0;
          pts_actions = (if av \<ge> 8 / 10 then 2 else if av \<ge> 5 / 10 then 1 else 0)
                        + (if qr \<ge> 6 / 10 then 2 else if qr \<ge> 3 / 10 then 1 else 0);
          kmr = get_or (m_keyword_match_rate m) 0;
          pts_keywords = (if kmr \<ge> 75 / 100 then 3 else if kmr \<ge> 5 / 10 then 2
                          else if kmr \<ge> 3 / 10 then 1 else 0);
          pages = get_or (m_pages m) 2;
          avg_bullets = get_or (m_avg_bullets_per_job m) 6;
          pts_brev = (if pages \<le> 2 then 1 else 0) + (if avg_bullets \<le> 7 then 1 else 0);
          rep = get_or (m_repetition_rate m) (15 / 100);
          jar = get_or (m_jargon_rate m) (2 / 10);
          usk = get_or (m_unique_skills_count m) 8;
          pts_clean = (if rep \<le> 10 / 100 then 1 else 0) + (if jar \<le> 15 / 100 then 1 else 0)
                      + (if usk \<ge> 8 then 1 else 0);
          total = 0 + pts_layout + pts_actions + pts_keywords + pts_brev + pts_clean
      in \<lparr> items =
             [\<lparr> item_name = ''ATS-friendly layout & structure'', item_earned = pts_layout, item_max = 3 \<rparr>,
              \<lparr> item_name = ''Action verbs & quantified results'', item_earned = pts_actions, item_max = 4 \<rparr>,
              \<lparr> item_name = ''Job-relevant keyword alignment'', item_earned = pts_keywords, item_max = 3 \<rparr>,
              \<lparr> item_name = ''Brevity & conciseness'', item_earned = pts_brev, item_max = 2 \<rparr>,
              \<lparr> item_name = ''Minimal jargon / repetition'', item_earned = pts_clean, item_max = 3 \<rparr>],
           subtotal_earned = total,
           subtotal_max = MAX_ATS,
           score_100 = py_round ((real_of_int total / real_of_int MAX_ATS) * 100) \<rparr>)"

subsection \<open>Link extraction (\<^verbatim>\<open>utils.py\<close>, \<^verbatim>\<open>extract_and_identify_links\<close>)\<close>

text \<open>An entry \<^verbatim>\<open>{"url": ..., "type": ...}\<close>; a missing or \<^verbatim>\<open>None\<close> value is \<open>None\<close>.\<close>

record link =
  url :: "string option"
  link_type :: "string option"

text \<open>\<^verbatim>\<open>url_pattern = r"https?://[^\s\"]+"\<close>.\<close>

definition url_pattern :: rx where
  "url_pattern =
     Seq (lit ''http'') (Seq (Opt (lit ''s'')) (Seq (lit ''://'')
       (Rep 1 (\<lambda>c. \<not> is_space c \<and> c \<noteq> CHR 0x22))))"

text \<open>\<^verbatim>\<open>email_pattern = r"[a-zA-Z0-9._%+-]+@[a-zA-Z0-9.-]+\.[a-zA-Z]{2,}"\<close>.\<close>

definition email_pattern :: rx where
  "email_pattern =
     Seq (Rep 1 (\<lambda>c. is_ascii_letter c \<or> is_digit c \<or> c \<in> set ''._%+-''))
       (Seq (lit ''@'')
         (Seq (Rep 1 (\<lambda>c. is_ascii_letter c \<or> is_digit c \<or> c \<in> set ''.-''))
           (Seq (lit ''.'') (Rep 2 is_ascii_letter))))"

text \<open>\<^verbatim>\<open>r"portfolio|netlify|vercel|\.me|\.io|\.dev|\.app"\<close> under \<^verbatim>\<open>re.I\<close>.\<close>

definition portfolio_host_pattern :: rx where
  "portfolio_host_pattern =
     alts (map ilit [''portfolio'', ''netlify'', ''vercel'', ''.me'', ''.io'', ''.dev'', ''.app''])"

text \<open>The inner function \<^verbatim>\<open>_classify\<close>.\<close>

definition classify :: "string \<Rightarrow> string" where
  "classify u =
     (if sublist ''github.com'' u then ''GitHub''
      else if sublist ''linkedin.com'' u then ''LinkedIn''
      else if re_search portfolio_host_pattern u then ''Portfolio''
      else if prefix ''mailto:'' u then ''Email''
      else ''Other'')"

text \<open>
  The loop over the anchors: \<open>hrefs\<close> are the \<^verbatim>\<open>href\<close> values of
  \<^verbatim>\<open>soup.find_all("a", href=True)\<close> in document order. An href is appended unless it is
  in \<open>existing\<close>, and then joins \<open>existing\<close>.
\<close>

fun add_anchors :: "link list \<Rightarrow> string set \<Rightarrow> string list \<Rightarrow> link list" where
  "add_anchors links existing [] = links"
| "add_anchors links existing (href # hrefs) =
     (if href \<notin> existing
      then add_anchors (links @ [\<lparr> url = Some href, link_type = Some (classify href) \<rparr>])
             (insert href existing) hrefs
      else add_anchors links existing hrefs)"

text \<open>
  \<^verbatim>\<open>extract_and_identify_links\<close>. The HTML parser (BeautifulSoup) is a library outside
  the repository: the hrefs it finds in the text are the second argument.
\<close>

definition extract_and_identify_links :: "string \<Rightarrow> string list \<Rightarrow> link list" where
  "extract_and_identify_links text hrefs =
     (let found_urls = re_findall url_pattern text;
          found_emails = re_findall email_pattern text;
          links = map (\<lambda>u. \<lparr> url = Some u, link_type = Some (classify u) \<rparr>) found_urls;
          links = links @ map (\<lambda>e. \<lparr> url = Some (''mailto:'' @ e), link_type = Some ''Email'' \<rparr>)
                            found_emails;
          existing = set (List.map_filter (\<lambda>d. if truthy (url d) then url d else None) links);
          links = add_anchors links existing hrefs
      in if re_search (ilit ''linkedin'') text
            \<and> \<not> list_ex (\<lambda>d. link_type d = Some ''LinkedIn'') links
         then links @ [\<lparr> url = None, link_type = Some ''LinkedIn (Inferred)'' \<rparr>]
         else links)"

subsection \<open>The report of \<^verbatim>\<open>utils.py\<close>\<close>

datatype py_error = KeyError string

text \<open>\<^verbatim>\<open>d[key]\<close> on a dictionary: a missing key raises.\<close>

definition py_getitem :: "(string \<times> 'a) list \<Rightarrow> string \<Rightarrow> py_error + 'a" where
  "py_getitem d k = (case map_of d k of None \<Rightarrow> Inl (KeyError k) | Some v \<Rightarrow> Inr v)"

definition TECHNICAL_WEIGHTS :: "(string \<times> int) list" where
  "TECHNICAL_WEIGHTS =
     [(''GitHub Profile'', 25),
      (''LeetCode/DSA Skills'', 20),
      (''Portfolio Website'', 20),
      (''LinkedIn Profile'', 15),
      (''Resume (ATS Score)'', 10),
      (''Certifications & Branding'', 10)]"

record criterion =
  c_name :: string
  c_score :: int
  c_weight :: int
  c_insight :: string

text \<open>
  A section of the report. Only the certifications section has the key
  \<^verbatim>\<open>"recommendations"\<close>; elsewhere the field is \<open>None\<close>.
\<close>

record section_result =
  score :: int
  grade :: string
  weight :: int
  sub_criteria :: "criterion list"
  recommendations :: "string list option"

record report =
  sections :: "(string \<times> section_result) list"
  total_score :: int
  overall_score_average :: int
  overall_grade :: string
  suggestions :: "string list"

definition get_cert_suggestions :: "string \<Rightarrow> string list" where
  "get_cert_suggestions domain =
     (if lower domain = ''analytical'' then
        [''Google Data Analytics Professional Certificate '' @ en_dash @ '' Coursera'',
         ''IBM Data Science Professional Certificate '' @ en_dash @ '' Coursera'',
         ''Microsoft Certified: Azure Data Scientist Associate'']
      else if lower domain = ''technical'' then
        [''AWS Certified Developer '' @ en_dash @ '' AWS'',
         ''Microsoft Certified: Azure Developer Associate'',
         ''Certified Kubernetes Application Developer (CKAD)'']
      else
        [''IBM AI Practitioner '' @ en_dash @ '' Coursera'',
         ''Google Data Analytics Professional Certificate '' @ en_dash @ '' Coursera'',
         ''AWS Certified Developer '' @ en_dash @ '' AWS''])"

text \<open>
  The three text patterns of \<^verbatim>\<open>calculate_dynamic_ats_score\<close>, all under \<^verbatim>\<open>re.I\<close>:
  \<^verbatim>\<open>r"https?://[a-z0-9\-]+\.(com|io|dev|app|me|net|in|org)"\<close>,
  \<^verbatim>\<open>r"linkedin\.com/in/"\<close> and
  \<^verbatim>\<open>r"\b(certification|certified|course|certificate)\b"\<close>.
\<close>

definition portfolio_url_pattern :: rx where
  "portfolio_url_pattern =
     Seq (ilit ''http'') (Seq (Opt (ilit ''s'')) (Seq (lit ''://'')
       (Seq (Rep 1 (\<lambda>c. is_ascii_letter c \<or> is_digit c \<or> c = CHR ''-''))
         (Seq (lit ''.'')
           (alts (map ilit [''com'', ''io'', ''dev'', ''app'', ''me'', ''net'', ''in'', ''org'']))))))"

definition linkedin_pattern :: rx where
  "linkedin_pattern = ilit ''linkedin.com/in/''"

definition cert_pattern :: rx where
  "cert_pattern =
     Seq Wb (Seq (alts (map ilit [''certification'', ''certified'', ''course'', ''certificate''])) Wb)"

text \<open>
  The numbered blocks of \<^verbatim>\<open>calculate_dynamic_ats_score\<close>, each giving its section and
  the suggestions it appends.
\<close>

definition github_block :: "bool \<Rightarrow> (string \<times> int) list \<Rightarrow> py_error + (section_result \<times> string list)" where
  "github_block github_presence weights =
     (let github_criteria =
            (if github_presence then
               [\<lparr> c_name = ''Public link present'', c_score = 3, c_weight = 3, c_insight = ''GitHub link detected.'' \<rparr>,
                \<lparr> c_name = ''Recent activity (assumed)'', c_score = 4, c_weight = 5, c_insight = ''Add recent commits/pins.'' \<rparr>,
                \<lparr> c_name = ''Domain-relevant projects'', c_score = 4, c_weight = 6, c_insight = ''Keep repos aligned to role.'' \<rparr>]
             else
               [\<lparr> c_name = ''Public link present'', c_score = 0, c_weight = 3, c_insight = ''Add your GitHub link.'' \<rparr>]);
          github_score = (if github_presence then sum_list (map c_score github_criteria) else 0);
          added = (if github_presence then []
                   else [''Add a GitHub profile link with pinned, recent projects.''])
      in case py_getitem weights ''GitHub Profile'' of
           Inl e \<Rightarrow> Inl e
         | Inr w \<Rightarrow>
             Inr (\<lparr> score = github_score, grade = get_grade_tag (real_of_int github_score),
                     weight = w, sub_criteria = github_criteria, recommendations = None \<rparr>, added))"

definition leetcode_block :: "bool \<Rightarrow> (string \<times> int) list \<Rightarrow> py_error + (section_result \<times> string list)" where
  "leetcode_block leetcode_presence weights =
     (let leetcode_criteria =
            (if leetcode_presence then
               [\<lparr> c_name = ''Link present'', c_score = 2, c_weight = 2, c_insight = ''Profile link detected.'' \<rparr>,
                \<lparr> c_name = ''Problem variety (assumed)'', c_score = 3, c_weight = 5, c_insight = ''Cover DP/Graphs/Greedy.'' \<rparr>,
                \<lparr> c_name = ''Consistency (assumed)'', c_score = 3, c_weight = 4, c_insight = ''Regular practice helps.'' \<rparr>]
             else
               [\<lparr> c_name = ''Link present'', c_score = 0, c_weight = 2, c_insight = ''Include your LeetCode link.'' \<rparr>]);
          leetcode_score = (if leetcode_presence then sum_list (map c_score leetcode_criteria) else 0);
          added = (if leetcode_presence then []
                   else [''Include a LeetCode link to showcase DSA practice.''])
      in case py_getitem weights ''LeetCode/DSA Skills'' of
           Inl e \<Rightarrow> Inl e
         | Inr w \<Rightarrow>
             Inr (\<lparr> score = leetcode_score, grade = get_grade_tag (real_of_int leetcode_score),
                     weight = w, sub_criteria = leetcode_criteria, recommendations = None \<rparr>, added))"

definition portfolio_block :: "bool \<Rightarrow> (string \<times> int) list \<Rightarrow> py_error + (section_result \<times> string list)" where
  "portfolio_block portfolio_presence weights =
     (let portfolio_criteria =
            (if portfolio_presence then
               [\<lparr> c_name = ''Link present'', c_score = 2, c_weight = 2, c_insight = ''Portfolio detected.'' \<rparr>,
                \<lparr> c_name = ''Project write-ups (assumed)'', c_score = 3, c_weight = 4, c_insight = ''Explain problems & impact.'' \<rparr>,
                \<lparr> c_name = ''Interactive demos (assumed)'', c_score = 2, c_weight = 3, c_insight = ''Add live demos if possible.'' \<rparr>]
             else
               [\<lparr> c_name = ''Link present'', c_score = 0, c_weight = 2, c_insight = ''Add a simple portfolio site.'' \<rparr>]);
          portfolio_score = (if portfolio_presence then sum_list (map c_score portfolio_criteria) else 0);
          added = (if portfolio_presence then []
                   else [''Publish a simple portfolio with 2'' @ en_dash @ ''3 best projects.''])
      in case py_getitem weights ''Portfolio Website'' of
           Inl e \<Rightarrow> Inl e
         | Inr w \<Rightarrow>
             Inr (\<lparr> score = portfolio_score, grade = get_grade_tag (real_of_int portfolio_score),
                     weight = w, sub_criteria = portfolio_criteria, recommendations = None \<rparr>, added))"

text \<open>The LinkedIn block reads no weight from the table: its section's weight is the literal 3.\<close>

definition linkedin_block :: "bool \<Rightarrow> section_result \<times> string list" where
  "linkedin_block linkedin_presence =
     (let linkedin_score = (if linkedin_presence then 3 else 0);
          linkedin_criteria =
            [\<lparr> c_name = ''Public link present'', c_score = linkedin_score, c_weight = 3,
                c_insight = (if \<not> linkedin_presence
                             then ''Add a public LinkedIn URL to boost visibility.''
                             else ''LinkedIn detected.'') \<rparr>];
          added = (if \<not> linkedin_presence
                   then [''Add a public LinkedIn link (custom URL preferred).''] else [])
      in (\<lparr> score = linkedin_score, grade = get_grade_tag (real_of_int linkedin_score),
             weight = 3, sub_criteria = linkedin_criteria, recommendations = None \<rparr>, added))"

definition resume_block :: "(string \<times> int) list \<Rightarrow> py_error + section_result" where
  "resume_block weights =
     (let resume_section_score = 65;
          resume_criteria =
            [\<lparr> c_name = ''ATS-friendly layout'', c_score = 3, c_weight = 3, c_insight = ''Readable fonts, minimal columns.'' \<rparr>,
             \<lparr> c_name = ''Action verbs & results'', c_score = 4, c_weight = 4, c_insight = ''Quantify achievements.'' \<rparr>,
             \<lparr> c_name = ''Keyword alignment'', c_score = 3, c_weight = 3, c_insight = ''Mirror JD keywords.'' \<rparr>,
             \<lparr> c_name = ''Brevity'', c_score = 2, c_weight = 2, c_insight = ''Keep to 1'' @ en_dash @ ''2 pages.'' \<rparr>,
             \<lparr> c_name = ''Clarity'', c_score = 3, c_weight = 3, c_insight = ''Avoid jargon/repetition.'' \<rparr>]
      in case py_getitem weights ''Resume (ATS Score)'' of
           Inl e \<Rightarrow> Inl e
         | Inr w \<Rightarrow>
             Inr \<lparr> score = resume_section_score,
                   grade = get_grade_tag (real_of_int resume_section_score),
                   weight = w, sub_criteria = resume_criteria, recommendations = None \<rparr>)"

definition cert_block :: "bool \<Rightarrow> (string \<times> int) list \<Rightarrow> py_error + section_result" where
  "cert_block cert_presence weights =
     (let cert_score = (if cert_presence then 65 else 0);
          cert_criteria =
            (if cert_presence then
               [\<lparr> c_name = ''Role-relevant'', c_score = 5, c_weight = 5, c_insight = ''Keep recent & relevant.'' \<rparr>,
                \<lparr> c_name = ''Credible issuer'', c_score = 5, c_weight = 5, c_insight = ''Prefer AWS, MS, Coursera, etc.'' \<rparr>,
                \<lparr> c_name = ''Recency'', c_score = 3, c_weight = 3, c_insight = ''Within 2 years preferred.'' \<rparr>,
                \<lparr> c_name = ''Completeness'', c_score = 2, c_weight = 2, c_insight = ''Title + issuer clearly listed.'' \<rparr>]
             else
               [\<lparr> c_name = ''Certifications present'', c_score = 0, c_weight = 15,
                   c_insight = ''Consider 1'' @ en_dash @ ''2 role-aligned certs.'' \<rparr>]);
          cert_recs = (if cert_presence then [] else get_cert_suggestions ''technical'')
      in case py_getitem weights ''Certifications & Branding'' of
           Inl e \<Rightarrow> Inl e
         | Inr w \<Rightarrow>
             Inr \<lparr> score = cert_score, grade = get_grade_tag (real_of_int cert_score),
                   weight = w, sub_criteria = cert_criteria, recommendations = Some cert_recs \<rparr>)"

text \<open>
  \<^verbatim>\<open>calculate_dynamic_ats_score\<close> of \<^verbatim>\<open>utils.py\<close>. The argument
  \<^verbatim>\<open>extracted_links\<close> is never read. \<^verbatim>\<open>sections[name] = ...\<close> is
  \<^const>\<open>AList.update\<close>, which keeps insertion order.
\<close>

definition calculate_dynamic_ats_score ::
  "string \<Rightarrow> string option \<Rightarrow> string option \<Rightarrow> link list \<Rightarrow> py_error + report" where
  "calculate_dynamic_ats_score resume_text github_username leetcode_username extracted_links =
     (let weights = TECHNICAL_WEIGHTS;
          text = resume_text;
          github_presence = truthy github_username;
          leetcode_presence = truthy leetcode_username;
          portfolio_presence = re_search portfolio_url_pattern text;
          linkedin_presence = re_search linkedin_pattern text;
          cert_presence = re_search cert_pattern text
      in case github_block github_presence weights of Inl e \<Rightarrow> Inl e | Inr (s1, a1) \<Rightarrow>
         (case leetcode_block leetcode_presence weights of Inl e \<Rightarrow> Inl e | Inr (s2, a2) \<Rightarrow>
         (case portfolio_block portfolio_presence weights of Inl e \<Rightarrow> Inl e | Inr (s3, a3) \<Rightarrow>
         (case linkedin_block linkedin_presence of (s4, a4) \<Rightarrow>
         (case resume_block weights of Inl e \<Rightarrow> Inl e | Inr s5 \<Rightarrow>
         (case cert_block cert_presence weights of Inl e \<Rightarrow> Inl e | Inr s6 \<Rightarrow>
           (let sects =
                  AList.update ''Certifications & Branding'' s6
                  (AList.update ''Resume (ATS Score)'' s5
                  (AList.update ''LinkedIn'' s4
                  (AList.update ''Portfolio Website'' s3
                  (AList.update ''LeetCode/DSA Skills'' s2
                  (AList.update ''GitHub Profile'' s1 [])))));
                suggs = a1 @ a2 @ a3 @ a4;
                total =
                  sum_list (map (\<lambda>s. real_of_int (score s) * (real_of_int (weight s) / 100))
                              (map snd sects));
                all_scores = map (\<lambda>s. score s) (map snd sects);
                overall_avg =
                  py_round (real_of_int (sum_list all_scores) / real (max 1 (length all_scores)))
            in Inr \<lparr> sections = sects,
                     total_score = py_round total,
                     overall_score_average = overall_avg,
                     overall_grade = get_grade_tag (real_of_int overall_avg),
                     suggestions = suggs \<rparr>)))))))"

subsection \<open>The report of \<^verbatim>\<open>score_utils.py\<close>\<close>

definition TECHNICAL_WEIGHTS_su :: "(string \<times> int) list" where
  "TECHNICAL_WEIGHTS_su =
     [(''GitHub Profile'', 25),
      (''LeetCode/DSA Skills'', 20),
      (''Portfolio Website'', 20),
      (''LinkedIn'', 15),
      (''Resume (ATS Score)'', 10),
      (''Certifications & Branding'', 10)]"

record section_result_su =
  score_su :: int
  grade_su :: string

record report_su =
  sections_su :: "(string \<times> section_result_su) list"
  total_score_su :: int
  overall_score_average_su :: int
  overall_grade_su :: string
  suggestions_su :: "string list"

text \<open>
  \<^verbatim>\<open>r"\b(netlify|vercel|github\.io|\.me|\.io|\.dev|\.app)\b"\<close> and
  \<^verbatim>\<open>r"\b(certification|certified|certificate|course)\b"\<close>, both under \<^verbatim>\<open>re.I\<close>.
\<close>

definition portfolio_pattern_su :: rx where
  "portfolio_pattern_su =
     Seq Wb (Seq (alts (map ilit [''netlify'', ''vercel'', ''github.io'', ''.me'', ''.io'', ''.dev'',
                                  ''.app''])) Wb)"

definition cert_pattern_su :: rx where
  "cert_pattern_su =
     Seq Wb (Seq (alts (map ilit [''certification'', ''certified'', ''certificate'', ''course''])) Wb)"

text \<open>The inner function \<^verbatim>\<open>_has_link\<close>.\<close>

definition has_link :: "link list \<Rightarrow> string \<Rightarrow> bool" where
  "has_link extracted_links kind =
     list_ex (\<lambda>lk. lower (get_or (link_type lk) []) = lower kind) extracted_links"

text \<open>The inner function \<^verbatim>\<open>sec\<close>, which stores one section.\<close>

definition sec :: "(string \<times> section_result_su) list \<Rightarrow> string \<Rightarrow> int \<Rightarrow> (string \<times> section_result_su) list" where
  "sec sects name sc =
     AList.update name \<lparr> score_su = sc, grade_su = get_grade_tag_su (real_of_int sc) \<rparr> sects"

text \<open>
  \<^verbatim>\<open>calculate_dynamic_ats_score\<close> of \<^verbatim>\<open>score_utils.py\<close>. \<^verbatim>\<open>extracted_links\<close> is
  \<^verbatim>\<open>None\<close> or a list, and \<^verbatim>\<open>extracted_links or []\<close> makes \<^verbatim>\<open>None\<close> the empty
  list. The argument \<^verbatim>\<open>domain\<close> is never read.
\<close>

definition calculate_dynamic_ats_score_su ::
  "string \<Rightarrow> string option \<Rightarrow> string option \<Rightarrow> link list option \<Rightarrow> string \<Rightarrow> report_su" where
  "calculate_dynamic_ats_score_su resume_text github_username leetcode_username extracted_links domain =
     (let links = get_or extracted_links [];
          text = resume_text;
          has_github = (truthy github_username \<or> sublist ''github.com'' (lower text));
          has_lc = (truthy leetcode_username \<or> sublist ''leetcode.com'' (lower text));
          has_portfolio = re_search portfolio_pattern_su text;
          has_linkedin = (has_link links ''LinkedIn''
                          \<or> sublist ''linkedin.com/in/'' (lower text));
          has_certs = re_search cert_pattern_su text;
          sects = [];
          sects = sec sects ''GitHub Profile'' (if has_github then 70 else 0);
          sects = sec sects ''LeetCode/DSA Skills'' (if has_lc then 60 else 0);
          sects = sec sects ''Portfolio Website'' (if has_portfolio then 55 else 0);
          sects = sec sects ''LinkedIn'' (if has_linkedin then 60 else 0);
          sects = sec sects ''Resume (ATS Score)'' 60;
          sects = sec sects ''Certifications & Branding'' (if has_certs then 50 else 0);
          suggs = [];
          suggs = (if \<not> has_github
                         then suggs @ [''Add a public GitHub link with recent activity.'']
                         else suggs);
          suggs = (if \<not> has_lc
                         then suggs @ [''Include your LeetCode (or equivalent) problem-solving profile.'']
                         else suggs);
          suggs = (if \<not> has_portfolio
                         then suggs @ [''Publish a portfolio (Netlify/Vercel/GitHub Pages) with 2''
                                              @ en_dash @ ''3 write-ups.'']
                         else suggs);
          suggs = (if \<not> has_linkedin
                         then suggs @ [''Link a public LinkedIn profile with a clear headline/summary.'']
                         else suggs);
          suggs = (if \<not> has_certs
                         then suggs @ [''Add 1'' @ en_dash @ ''2 recent role-relevant certifications.'']
                         else suggs);
          total =
            sum_list (map (\<lambda>(k, w). case map_of sects k of
                                        None \<Rightarrow> 0
                                      | Some s \<Rightarrow> real_of_int (score_su s) * (real_of_int w / 100))
                        TECHNICAL_WEIGHTS_su);
          overall_avg =
            py_round (real_of_int (sum_list (map (\<lambda>v. score_su v) (map snd sects)))
                      / real (max 1 (length sects)))
      in \<lparr> sections_su = sects,
           total_score_su = py_round total,
           overall_score_average_su = overall_avg,
           overall_grade_su = get_grade_tag_su (real_of_int overall_avg),
           suggestions_su = suggs \<rparr>)"

subsection \<open>Predicates and observations used in the statements\<close>

text \<open>
  Every whitespace character of the string is a space that follows no whitespace
  character; the flag says that the character before the string is whitespace.
\<close>

fun single_spaced :: "bool \<Rightarrow> string \<Rightarrow> bool" where
  "single_spaced b [] = True"
| "single_spaced b (c # cs) =
     (if is_space c then \<not> b \<and> c = CHR '' '' \<and> single_spaced True cs
      else single_spaced False cs)"

text \<open>The string neither starts nor ends with a whitespace character.\<close>

definition stripped :: "string \<Rightarrow> bool" where
  "stripped s = (s = [] \<or> (\<not> is_space (hd s) \<and> \<not> is_space (last s)))"

section \<open>Properties\<close>

subsection \<open>Grade bands\<close>

text \<open>
  C1. For every score \<open>s\<close> in \<open>[0,100]\<close>, \<open>get_grade_tag\<close> cuts the range into four
  contiguous bands, lower bound inclusive and upper bound exclusive, at 50, 70 and 85: the
  tag is Poor exactly when \<open>s < 50\<close>, Average exactly when \<open>50 \<le> s < 70\<close>, Good exactly
  when \<open>70 \<le> s < 85\<close> and Excellent exactly when \<open>85 \<le> s\<close>; the tag is one of these
  four, and the function of \<^verbatim>\<open>score_utils.py\<close> gives the same tag.
\<close>

theorem get_grade_tag_bands:
  assumes "0 \<le> s" and "s \<le> 100"
  shows "(get_grade_tag s = ''Poor'' \<longleftrightarrow> s < 50)
       \<and> (get_grade_tag s = ''Average'' \<longleftrightarrow> 50 \<le> s \<and> s < 70)
       \<and> (get_grade_tag s = ''Good'' \<longleftrightarrow> 70 \<le> s \<and> s < 85)
       \<and> (get_grade_tag s = ''Excellent'' \<longleftrightarrow> 85 \<le> s)
       \<and> get_grade_tag s \<in> {''Poor'', ''Average'', ''Good'', ''Excellent''}
       \<and> get_grade_tag_su s = get_grade_tag s"
  by (simp add: get_grade_tag_def get_grade_tag_su_def)

text \<open>The six scores the specification names, in both implementations.\<close>

theorem get_grade_tag_bands_witness:
  "get_grade_tag (499 / 10) = ''Poor'' \<and> get_grade_tag 50 = ''Average''
   \<and> get_grade_tag (699 / 10) = ''Average'' \<and> get_grade_tag 70 = ''Good''
   \<and> get_grade_tag (849 / 10) = ''Good'' \<and> get_grade_tag 85 = ''Excellent''
   \<and> get_grade_tag_su (499 / 10) = ''Poor'' \<and> get_grade_tag_su 50 = ''Average''
   \<and> get_grade_tag_su (699 / 10) = ''Average'' \<and> get_grade_tag_su 70 = ''Good''
   \<and> get_grade_tag_su (849 / 10) = ''Good'' \<and> get_grade_tag_su 85 = ''Excellent''"
  using get_grade_tag_bands [of "499 / 10"] get_grade_tag_bands [of 50]
    get_grade_tag_bands [of "699 / 10"] get_grade_tag_bands [of 70]
    get_grade_tag_bands [of "849 / 10"] get_grade_tag_bands [of 85]
  by simp

subsection \<open>Link extraction\<close>

lemma rx_match_le:
  "(q, rest) \<in> set (rx_match r (p, s)) \<Longrightarrow> length rest \<le> length s"
proof (induction r arbitrary: p s q rest)
  case Eps
  then show ?case by simp
next
  case (Ch P)
  then show ?case by (cases s) (auto split: if_splits)
next
  case (Seq a b)
  from Seq.prems obtain m where m: "m \<in> set (rx_match a (p, s))"
    and r: "(q, rest) \<in> set (rx_match b m)"
    by auto
  obtain p' s' where ms: "m = (p', s')" by (cases m)
  have "length s' \<le> length s" using Seq.IH(1) m unfolding ms by blast
  moreover have "length rest \<le> length s'" using Seq.IH(2) r unfolding ms by blast
  ultimately show ?case by simp
next
  case (Alt a b)
  then show ?case by auto
next
  case (Opt a)
  then show ?case by auto
next
  case (Rep n P)
  then show ?case by (auto simp: Let_def)
next
  case Wb
  then show ?case by (auto simp: Let_def split: if_splits)
qed

lemma rx_match_Ch_Seq_lt:
  assumes "(q, rest) \<in> set (rx_match (Seq (Seq (Ch P) a) b) (p, s))"
  shows "length rest < length s"
proof -
  from assms obtain m where m: "m \<in> set (rx_match (Seq (Ch P) a) (p, s))"
    and r: "(q, rest) \<in> set (rx_match b m)"
    by auto
  obtain p' s' where ms: "m = (p', s')" by (cases m)
  from m obtain c cs where s: "s = c # cs" and m': "m \<in> set (rx_match a (Some c, cs))"
    by (cases s) (auto split: if_splits)
  have "length s' \<le> length cs" using m' rx_match_le unfolding ms by blast
  moreover have "length rest \<le> length s'" using r rx_match_le unfolding ms by blast
  ultimately show ?thesis using s by simp
qed

lemma url_pattern_consumes:
  "(q, rest) \<in> set (rx_match url_pattern (p, s)) \<Longrightarrow> length rest < length s"
  unfolding url_pattern_def by (simp only: lit.simps) (rule rx_match_Ch_Seq_lt)

lemma findall_nonempty:
  "(\<And>p s q rest. (q, rest) \<in> set (rx_match r (p, s)) \<Longrightarrow> length rest < length s)
   \<Longrightarrow> [] \<notin> set (findall_from r k p s)"
proof (induction r k p s rule: findall_from.induct)
  case (1 r k p)
  then show ?case by simp
next
  case (2 r k p c cs)
  then show ?case by simp
next
  case (3 r p c cs)
  show ?case
  proof (cases "rx_match r (p, c # cs)")
    case Nil
    then show ?thesis using 3 by simp
  next
    case (Cons m ms)
    obtain q rest where m: "m = (q, rest)" by (cases m)
    have "(q, rest) \<in> set (rx_match r (p, c # cs))" using Cons m by simp
    then have lt: "length rest < length (c # cs)" by (rule "3.prems")
    then have "take (length (c # cs) - length rest) (c # cs) \<noteq> []" by simp
    moreover have "[] \<notin> set (findall_from r (length (c # cs) - length rest - 1) (Some c) cs)"
      using "3.IH"(2) "3.prems" Cons m by simp
    ultimately show ?thesis using Cons m by (simp add: Let_def)
  qed
qed

lemma found_urls_nonempty: "[] \<notin> set (re_findall url_pattern text)"
  unfolding re_findall_def by (rule findall_nonempty) (rule url_pattern_consumes)


lemma add_anchors_shape:
  "\<exists>hs. add_anchors links existing hrefs
          = links @ map (\<lambda>h. \<lparr> url = Some h, link_type = Some (classify h) \<rparr>) hs
        \<and> distinct hs \<and> subseq hs hrefs \<and> set hs = set hrefs - existing"
proof (induction hrefs arbitrary: links existing)
  case Nil
  show ?case by simp
next
  case (Cons href hrefs)
  show ?case
  proof (cases "href \<in> existing")
    case True
    obtain hs where a: "add_anchors links existing hrefs
          = links @ map (\<lambda>h. \<lparr> url = Some h, link_type = Some (classify h) \<rparr>) hs"
      and d: "distinct hs" and s: "subseq hs hrefs" and e: "set hs = set hrefs - existing"
      using Cons.IH [of links existing] by (elim exE conjE)
    have "add_anchors links existing (href # hrefs)
          = links @ map (\<lambda>h. \<lparr> url = Some h, link_type = Some (classify h) \<rparr>) hs"
      using True a by simp
    moreover have "subseq hs (href # hrefs)" using s by (rule list_emb_Cons)
    moreover have "set hs = set (href # hrefs) - existing" using e True by auto
    ultimately show ?thesis using d by (intro exI [of _ hs] conjI)
  next
    case False
    let ?l = "links @ [\<lparr> url = Some href, link_type = Some (classify href) \<rparr>]"
    obtain hs where a: "add_anchors ?l (insert href existing) hrefs
          = ?l @ map (\<lambda>h. \<lparr> url = Some h, link_type = Some (classify h) \<rparr>) hs"
      and d: "distinct hs" and s: "subseq hs hrefs"
      and e: "set hs = set hrefs - insert href existing"
      using Cons.IH [of ?l "insert href existing"] by (elim exE conjE)
    have "add_anchors links existing (href # hrefs)
          = links @ map (\<lambda>h. \<lparr> url = Some h, link_type = Some (classify h) \<rparr>) (href # hs)"
      using False a by simp
    moreover have "distinct (href # hs)" using d e by simp
    moreover have "subseq (href # hs) (href # hrefs)" using s by (simp add: subseq_Cons2_iff)
    moreover have "set (href # hs) = set (href # hrefs) - existing" using e False by auto
    ultimately show ?thesis by (intro exI [of _ "href # hs"] conjI)
  qed
qed

lemma existing_urls:
  "[] \<notin> set us \<Longrightarrow>
   List.map_filter (\<lambda>d. if truthy (url d) then url d else None)
     (map (\<lambda>u. \<lparr> url = Some u, link_type = Some (g u) \<rparr>) us) = us"
  by (induction us) (auto simp: List.map_filter_simps truthy_def)

lemma existing_emails:
  "List.map_filter (\<lambda>d. if truthy (url d) then url d else None)
     (map (\<lambda>e. \<lparr> url = Some (''mailto:'' @ e), link_type = Some ''Email'' \<rparr>) es)
   = map (\<lambda>e. ''mailto:'' @ e) es"
  by (induction es) (simp_all add: List.map_filter_simps truthy_def)

lemma map_filter_append: "List.map_filter f (xs @ ys) = List.map_filter f xs @ List.map_filter f ys"
  by (simp add: List.map_filter_def)

lemma extract_example:
  "extract_and_identify_links ''https://github.com/alice https://linkedin.com/in/bob'' [] =
     [\<lparr> url = Some ''https://github.com/alice'', link_type = Some ''GitHub'' \<rparr>,
      \<lparr> url = Some ''https://linkedin.com/in/bob'', link_type = Some ''LinkedIn'' \<rparr>]"
  by code_simp

lemma remdups_snoc:
  "remdups (xs @ [h]) = filter (\<lambda>y. y \<noteq> h) (remdups xs) @ [h]"
  by (induction xs) auto

lemma first_occurrences_Cons:
  "rev (remdups (rev (h # hs))) = h # filter (\<lambda>y. y \<noteq> h) (rev (remdups (rev hs)))"
  by (simp add: remdups_snoc rev_filter)

lemma add_anchors_first:
  "add_anchors links existing hrefs
   = links @ map (\<lambda>h. \<lparr> url = Some h, link_type = Some (classify h) \<rparr>)
               (filter (\<lambda>h. h \<notin> existing) (rev (remdups (rev hrefs))))"
proof (induction hrefs arbitrary: links existing)
  case Nil
  show ?case by simp
next
  case (Cons href hrefs)
  let ?F = "rev (remdups (rev hrefs))"
  show ?case
  proof (cases "href \<in> existing")
    case True
    have "filter (\<lambda>h. h \<notin> existing) (filter (\<lambda>y. y \<noteq> href) ?F)
          = filter (\<lambda>h. h \<notin> existing) ?F"
      unfolding filter_filter by (rule filter_cong) (use True in auto)
    then have "filter (\<lambda>h. h \<notin> existing) (rev (remdups (rev (href # hrefs))))
          = filter (\<lambda>h. h \<notin> existing) ?F"
      unfolding first_occurrences_Cons using True by simp
    moreover have "add_anchors links existing (href # hrefs) = add_anchors links existing hrefs"
      using True by simp
    ultimately show ?thesis using Cons.IH [of links existing] by simp
  next
    case False
    have "filter (\<lambda>h. h \<notin> existing) (filter (\<lambda>y. y \<noteq> href) ?F)
          = filter (\<lambda>h. h \<notin> insert href existing) ?F"
      unfolding filter_filter by (rule filter_cong) auto
    then have "filter (\<lambda>h. h \<notin> existing) (rev (remdups (rev (href # hrefs))))
          = href # filter (\<lambda>h. h \<notin> insert href existing) ?F"
      unfolding first_occurrences_Cons using False by simp
    moreover have "add_anchors links existing (href # hrefs)
          = add_anchors (links @ [\<lparr> url = Some href, link_type = Some (classify href) \<rparr>])
              (insert href existing) hrefs"
      using False by simp
    ultimately show ?thesis
      using Cons.IH [of "links @ [\<lparr> url = Some href, link_type = Some (classify href) \<rparr>]"
          "insert href existing"]
      by simp
  qed
qed

lemma anchors_example:
  "extract_and_identify_links [] [''/a'', ''/b'', ''/a''] =
     [\<lparr> url = Some ''/a'', link_type = Some ''Other'' \<rparr>,
      \<lparr> url = Some ''/b'', link_type = Some ''Other'' \<rparr>]"
  by code_simp

lemma mk_anchor_inj:
  "inj (\<lambda>h. \<lparr> url = Some h, link_type = Some (classify h) \<rparr>)"
  by (rule injI) simp

text \<open>
  C2. The link extractor removes duplicates among the anchors only. Its result is, in this
  order: one entry for every URL occurrence the URL pattern finds in the text, in text
  order; then one \<open>mailto:\<close> entry for every e-mail occurrence, in text order; both with
  no deduplication, so a URL that repeats verbatim in the text is listed once per
  occurrence; then the anchors' hrefs, each at its first occurrence and only there
  (\<open>rev (remdups (rev hrefs))\<close> is \<open>hrefs\<close> with every later repetition removed), and only
  if it equals no URL or \<open>mailto:\<close> address found before; then at most one inferred
  LinkedIn entry. For the text \<open>https://github.com/alice https://linkedin.com/in/bob\<close>,
  which has no anchor, the result is exactly two entries, typed GitHub and LinkedIn, in
  that order; for the hrefs \<open>/a\<close>, \<open>/b\<close>, \<open>/a\<close> the result is \<open>/a\<close>, then \<open>/b\<close>.
\<close>

theorem extract_links_dedup:
  "(\<exists>hs tail.
      extract_and_identify_links text hrefs
        = map (\<lambda>u. \<lparr> url = Some u, link_type = Some (classify u) \<rparr>) (re_findall url_pattern text)
          @ map (\<lambda>e. \<lparr> url = Some (''mailto:'' @ e), link_type = Some ''Email'' \<rparr>)
              (re_findall email_pattern text)
          @ map (\<lambda>h. \<lparr> url = Some h, link_type = Some (classify h) \<rparr>) hs
          @ tail
      \<and> hs = filter (\<lambda>h. h \<notin> set (re_findall url_pattern text)
                                 \<union> (\<lambda>e. ''mailto:'' @ e) ` set (re_findall email_pattern text))
                 (rev (remdups (rev hrefs)))
      \<and> distinct hs \<and> subseq hs hrefs
      \<and> set hs = set hrefs - (set (re_findall url_pattern text)
                               \<union> (\<lambda>e. ''mailto:'' @ e) ` set (re_findall email_pattern text))
      \<and> (tail = [] \<or> tail = [\<lparr> url = None, link_type = Some ''LinkedIn (Inferred)'' \<rparr>]))
   \<and> extract_and_identify_links ''https://github.com/alice https://linkedin.com/in/bob'' [] =
       [\<lparr> url = Some ''https://github.com/alice'', link_type = Some ''GitHub'' \<rparr>,
        \<lparr> url = Some ''https://linkedin.com/in/bob'', link_type = Some ''LinkedIn'' \<rparr>]
   \<and> extract_and_identify_links [] [''/a'', ''/b'', ''/a''] =
       [\<lparr> url = Some ''/a'', link_type = Some ''Other'' \<rparr>,
        \<lparr> url = Some ''/b'', link_type = Some ''Other'' \<rparr>]"
proof -
  let ?us = "re_findall url_pattern text"
  let ?es = "re_findall email_pattern text"
  let ?base = "map (\<lambda>u. \<lparr> url = Some u, link_type = Some (classify u) \<rparr>) ?us
               @ map (\<lambda>e. \<lparr> url = Some (''mailto:'' @ e), link_type = Some ''Email'' \<rparr>) ?es"
  let ?ex = "set (List.map_filter (\<lambda>d. if truthy (url d) then url d else None) ?base)"
  have ex: "?ex = set ?us \<union> (\<lambda>e. ''mailto:'' @ e) ` set ?es"
    by (simp only: map_filter_append existing_urls [OF found_urls_nonempty] existing_emails
          set_append set_map)
  obtain hs where a: "add_anchors ?base ?ex hrefs
          = ?base @ map (\<lambda>h. \<lparr> url = Some h, link_type = Some (classify h) \<rparr>) hs"
    and d: "distinct hs" and s: "subseq hs hrefs" and e: "set hs = set hrefs - ?ex"
    using add_anchors_shape [of ?base ?ex hrefs] by (elim exE conjE)
  have "?base @ map (\<lambda>h. \<lparr> url = Some h, link_type = Some (classify h) \<rparr>) hs
        = ?base @ map (\<lambda>h. \<lparr> url = Some h, link_type = Some (classify h) \<rparr>)
                    (filter (\<lambda>h. h \<notin> ?ex) (rev (remdups (rev hrefs))))"
    using a add_anchors_first [of ?base ?ex hrefs] by (rule trans [OF sym])
  then have "map (\<lambda>h. \<lparr> url = Some h, link_type = Some (classify h) \<rparr>) hs
        = map (\<lambda>h. \<lparr> url = Some h, link_type = Some (classify h) \<rparr>)
            (filter (\<lambda>h. h \<notin> ?ex) (rev (remdups (rev hrefs))))"
    by (simp only: same_append_eq)
  then have f: "hs = filter (\<lambda>h. h \<notin> ?ex) (rev (remdups (rev hrefs)))"
    by (simp only: inj_map_eq_map [OF mk_anchor_inj])
  define tail where "tail =
    (if re_search (ilit ''linkedin'') text
        \<and> \<not> list_ex (\<lambda>d. link_type d = Some ''LinkedIn'') (add_anchors ?base ?ex hrefs)
     then [\<lparr> url = None, link_type = Some ''LinkedIn (Inferred)'' \<rparr>] else [])"
  have t: "tail = [] \<or> tail = [\<lparr> url = None, link_type = Some ''LinkedIn (Inferred)'' \<rparr>]"
    unfolding tail_def by simp
  have "extract_and_identify_links text hrefs = add_anchors ?base ?ex hrefs @ tail"
    unfolding extract_and_identify_links_def Let_def tail_def by simp
  then have eq: "extract_and_identify_links text hrefs
        = map (\<lambda>u. \<lparr> url = Some u, link_type = Some (classify u) \<rparr>) ?us
          @ map (\<lambda>e. \<lparr> url = Some (''mailto:'' @ e), link_type = Some ''Email'' \<rparr>) ?es
          @ map (\<lambda>h. \<lparr> url = Some h, link_type = Some (classify h) \<rparr>) hs
          @ tail"
    unfolding a by simp
  have e': "set hs = set hrefs - (set ?us \<union> (\<lambda>e. ''mailto:'' @ e) ` set ?es)"
    using e unfolding ex .
  have f': "hs = filter (\<lambda>h. h \<notin> set ?us \<union> (\<lambda>e. ''mailto:'' @ e) ` set ?es)
                   (rev (remdups (rev hrefs)))"
    using f unfolding ex .
  have "\<exists>hs tail.
      extract_and_identify_links text hrefs
        = map (\<lambda>u. \<lparr> url = Some u, link_type = Some (classify u) \<rparr>) ?us
          @ map (\<lambda>e. \<lparr> url = Some (''mailto:'' @ e), link_type = Some ''Email'' \<rparr>) ?es
          @ map (\<lambda>h. \<lparr> url = Some h, link_type = Some (classify h) \<rparr>) hs
          @ tail
      \<and> hs = filter (\<lambda>h. h \<notin> set ?us \<union> (\<lambda>e. ''mailto:'' @ e) ` set ?es)
                 (rev (remdups (rev hrefs)))
      \<and> distinct hs \<and> subseq hs hrefs
      \<and> set hs = set hrefs - (set ?us \<union> (\<lambda>e. ''mailto:'' @ e) ` set ?es)
      \<and> (tail = [] \<or> tail = [\<lparr> url = None, link_type = Some ''LinkedIn (Inferred)'' \<rparr>])"
    by (intro exI [of _ hs] exI [of _ tail] conjI) (rule eq f' d s e' t)+
  then show ?thesis
    by (intro conjI) (assumption | rule extract_example anchors_example)+
qed

text \<open>
  The specification asks for no duplicate when a URL repeats verbatim: the text with
  \<open>https://github.com/alice\<close> twice gives two entries with that URL.
\<close>

theorem extract_links_duplicate_counterexample:
  "extract_and_identify_links ''https://github.com/alice https://github.com/alice'' [] =
     [\<lparr> url = Some ''https://github.com/alice'', link_type = Some ''GitHub'' \<rparr>,
      \<lparr> url = Some ''https://github.com/alice'', link_type = Some ''GitHub'' \<rparr>]
   \<and> \<not> distinct (map url
         (extract_and_identify_links ''https://github.com/alice https://github.com/alice'' []))"
proof -
  have a: "extract_and_identify_links ''https://github.com/alice https://github.com/alice'' [] =
     [\<lparr> url = Some ''https://github.com/alice'', link_type = Some ''GitHub'' \<rparr>,
      \<lparr> url = Some ''https://github.com/alice'', link_type = Some ''GitHub'' \<rparr>]"
    by code_simp
  show ?thesis unfolding a by simp
qed

subsection \<open>Text normalisation\<close>

lemma lower_char_idem: "lower_char (lower_char c) = lower_char c"
  by (auto simp add: lower_char_def Let_def)

lemma is_space_lower_char: "is_space (lower_char c) = is_space c"
  by (auto simp add: lower_char_def is_space_def Let_def)

lemma lower_char_space: "is_space c \<Longrightarrow> lower_char c = c"
  by (auto simp add: lower_char_def is_space_def Let_def)

lemma is_space_blank: "is_space (CHR '' '')"
  by (simp add: is_space_def)

lemma lower_idem: "lower (lower s) = lower s"
  by (simp add: lower_def lower_char_idem)

lemma single_spaced_sub_ws: "single_spaced b (sub_ws b t)"
  by (induction t arbitrary: b) (simp_all add: is_space_blank)

lemma sub_ws_fixed: "single_spaced b s \<Longrightarrow> sub_ws b s = s"
  by (induction s arbitrary: b) (auto split: if_splits)

lemma single_spaced_dropWhile: "single_spaced b s \<Longrightarrow> single_spaced b' (dropWhile is_space s)"
  by (induction s arbitrary: b) (auto split: if_splits)

lemma single_spaced_prefix: "single_spaced b (xs @ ys) \<Longrightarrow> single_spaced b xs"
  by (induction xs arbitrary: b) (auto split: if_splits)

lemma rev_dropWhile_rev_prefix: "rev (dropWhile P (rev s)) @ rev (takeWhile P (rev s)) = s"
proof -
  have "rev (takeWhile P (rev s) @ dropWhile P (rev s)) = s" by simp
  then show ?thesis by (simp only: rev_append)
qed

lemma single_spaced_strip: "single_spaced b s \<Longrightarrow> single_spaced False (strip s)"
proof -
  assume "single_spaced b s"
  then have d: "single_spaced False (dropWhile is_space s)" by (rule single_spaced_dropWhile)
  have "strip s @ rev (takeWhile is_space (rev (dropWhile is_space s))) = dropWhile is_space s"
    unfolding strip_def by (rule rev_dropWhile_rev_prefix)
  with d show ?thesis by (metis single_spaced_prefix)
qed

lemma single_spaced_lower: "single_spaced b (lower s) = single_spaced b s"
  unfolding lower_def
proof (induction s arbitrary: b)
  case Nil
  then show ?case by simp
next
  case (Cons c cs)
  show ?case
  proof (cases "is_space c")
    case True
    then show ?thesis using Cons by (simp add: is_space_lower_char lower_char_space)
  next
    case False
    then show ?thesis using Cons by (simp add: is_space_lower_char)
  qed
qed

lemma stripped_strip: "stripped (strip s)"
proof (cases "strip s = []")
  case True
  then show ?thesis by (simp add: stripped_def)
next
  case False
  let ?d = "dropWhile is_space s"
  let ?e = "dropWhile is_space (rev ?d)"
  have ne: "?e \<noteq> []" using False by (simp add: strip_def)
  have h: "\<not> is_space (hd ?e)" using ne by (rule hd_dropWhile)
  have l1: "last (strip s) = hd ?e" using ne by (simp add: strip_def last_rev)
  have dne: "?d \<noteq> []"
  proof
    assume "?d = []"
    then have "?e = []" by (simp only: rev.simps dropWhile.simps)
    with ne show False by simp
  qed
  have hd_d: "\<not> is_space (hd ?d)" using dne by (rule hd_dropWhile)
  have "strip s @ rev (takeWhile is_space (rev ?d)) = ?d"
    unfolding strip_def by (rule rev_dropWhile_rev_prefix)
  then have "hd (strip s) = hd ?d" using False by (metis hd_append2)
  with hd_d h l1 show ?thesis by (simp add: stripped_def)
qed

lemma strip_fixed: "stripped s \<Longrightarrow> strip s = s"
proof (cases "s = []")
  case True
  then show ?thesis by (simp add: strip_def)
next
  case False
  assume "stripped s"
  with False have a: "\<not> is_space (hd s)" and b: "\<not> is_space (last s)"
    by (simp_all add: stripped_def)
  have d: "dropWhile is_space s = s" using a False by (simp add: dropWhile_eq_self_iff)
  have "hd (rev s) = last s" using False by (simp add: hd_rev)
  then have "dropWhile is_space (rev s) = rev s" using b by (simp add: dropWhile_eq_self_iff)
  with d show ?thesis by (simp add: strip_def)
qed

lemma stripped_lower: "stripped s \<Longrightarrow> stripped (lower s)"
  by (cases s rule: rev_cases)
     (auto simp: stripped_def lower_def is_space_lower_char hd_map hd_append last_map split: if_splits)

lemma filter_sub_ws: "filter (\<lambda>c. \<not> is_space c) (sub_ws b t) = filter (\<lambda>c. \<not> is_space c) t"
  by (induction t arbitrary: b) (simp_all add: is_space_blank)

lemma filter_dropWhile_space:
  "filter (\<lambda>c. \<not> is_space c) (dropWhile is_space t) = filter (\<lambda>c. \<not> is_space c) t"
  by (induction t) simp_all

lemma filter_strip: "filter (\<lambda>c. \<not> is_space c) (strip t) = filter (\<lambda>c. \<not> is_space c) t"
proof -
  have "filter (\<lambda>c. \<not> is_space c) (strip t)
        = rev (filter (\<lambda>c. \<not> is_space c) (dropWhile is_space (rev (dropWhile is_space t))))"
    by (simp add: strip_def rev_filter)
  also have "\<dots> = rev (filter (\<lambda>c. \<not> is_space c) (rev (dropWhile is_space t)))"
    by (simp only: filter_dropWhile_space)
  also have "\<dots> = filter (\<lambda>c. \<not> is_space c) (dropWhile is_space t)"
    by (simp add: rev_filter)
  finally show ?thesis by (simp only: filter_dropWhile_space)
qed

lemma filter_lower:
  "filter (\<lambda>c. \<not> is_space c) (lower t) = lower (filter (\<lambda>c. \<not> is_space c) t)"
  by (induction t) (simp_all add: lower_def is_space_lower_char)


lemma sub_ws_append:
  "sub_ws b (u @ v) = sub_ws b u @ sub_ws (if u = [] then b else is_space (last u)) v"
  by (induction u arbitrary: b) simp_all

lemma sub_ws_all_space_True: "list_all is_space w \<Longrightarrow> sub_ws True w = []"
  by (induction w) simp_all

lemma sub_ws_all_space_False:
  "list_all is_space w \<Longrightarrow> w \<noteq> [] \<Longrightarrow> sub_ws False w = [CHR '' '']"
  by (cases w) (simp_all add: sub_ws_all_space_True)

lemma sub_ws_all_space: "list_all is_space w \<Longrightarrow> list_all is_space (sub_ws b w)"
  by (induction w arbitrary: b) (simp_all add: is_space_blank)

lemma sub_ws_flag: "v \<noteq> [] \<Longrightarrow> \<not> is_space (hd v) \<Longrightarrow> sub_ws b v = sub_ws False v"
  by (cases v) simp_all

lemma lstrip_sub_ws: "dropWhile is_space (sub_ws b x) = dropWhile is_space (sub_ws False x)"
  by (cases x; cases b) (simp_all add: is_space_blank)

lemma strip_cong_lstrip: "dropWhile is_space s = dropWhile is_space s' \<Longrightarrow> strip s = strip s'"
  by (simp add: strip_def)

lemma strip_lead: "list_all is_space w \<Longrightarrow> strip (w @ a) = strip a"
  by (rule strip_cong_lstrip) (simp add: list_all_iff)

lemma strip_trail:
  assumes "list_all is_space w"
  shows "strip (a @ w) = strip a"
proof (cases "list_all is_space a")
  case True
  then have "dropWhile is_space (a @ w) = []" and "dropWhile is_space a = []"
    using assms by (simp_all add: list_all_iff)
  then show ?thesis by (simp only: strip_def)
next
  case False
  then obtain x where "x \<in> set a" "\<not> is_space x" by (auto simp: list_all_iff)
  then have "dropWhile is_space (a @ w) = dropWhile is_space a @ w"
    by (rule dropWhile_append1)
  moreover have "dropWhile is_space (rev w @ rev (dropWhile is_space a))
                 = dropWhile is_space (rev (dropWhile is_space a))"
    by (rule dropWhile_append2) (use assms in \<open>simp add: list_all_iff\<close>)
  ultimately show ?thesis by (simp add: strip_def)
qed

lemma last_sub_ws:
  "u \<noteq> [] \<Longrightarrow> \<not> is_space (last u) \<Longrightarrow> sub_ws b u \<noteq> [] \<and> last (sub_ws b u) = last u"
proof (induction u arbitrary: b)
  case Nil
  then show ?case by simp
next
  case (Cons c cs)
  show ?case
  proof (cases "cs = []")
    case True
    then show ?thesis using Cons.prems by simp
  next
    case False
    then have "\<not> is_space (last cs)" using Cons.prems by simp
    then have "\<And>b. sub_ws b cs \<noteq> [] \<and> last (sub_ws b cs) = last cs"
      using False Cons.IH by blast
    then show ?thesis using False by simp
  qed
qed

lemma hd_sub_ws:
  "v \<noteq> [] \<Longrightarrow> \<not> is_space (hd v) \<Longrightarrow> sub_ws b v \<noteq> [] \<and> hd (sub_ws b v) = hd v"
  by (cases v) simp_all

lemma strip_no_trail: "a \<noteq> [] \<Longrightarrow> \<not> is_space (last a) \<Longrightarrow> strip a = dropWhile is_space a"
proof -
  assume ne: "a \<noteq> []" and l: "\<not> is_space (last a)"
  have m: "last a \<in> set a" using ne by simp
  have "dropWhile is_space a \<noteq> []" using m l by auto
  moreover have "last (dropWhile is_space a) = last a"
    using m l by (metis calculation last_appendR takeWhile_dropWhile_id)
  ultimately have "hd (rev (dropWhile is_space a)) = last a" "rev (dropWhile is_space a) \<noteq> []"
    by (simp_all add: hd_rev)
  then have "dropWhile is_space (rev (dropWhile is_space a)) = rev (dropWhile is_space a)"
    using l by (simp add: dropWhile_eq_self_iff)
  then show ?thesis by (simp add: strip_def)
qed

lemma strip_no_lead:
  "b \<noteq> [] \<Longrightarrow> \<not> is_space (hd b) \<Longrightarrow> strip b = rev (dropWhile is_space (rev b))"
proof -
  assume "b \<noteq> []" and "\<not> is_space (hd b)"
  then have "dropWhile is_space b = b" by (simp add: dropWhile_eq_self_iff)
  then show ?thesis by (simp only: strip_def)
qed

lemma strip_join:
  assumes "a \<noteq> []" "\<not> is_space (last a)" "b \<noteq> []" "\<not> is_space (hd b)"
  shows "strip (a @ CHR '' '' # b) = strip a @ CHR '' '' # strip b"
proof -
  have ma: "last a \<in> set a" using assms(1) by simp
  have d1: "dropWhile is_space (a @ CHR '' '' # b) = dropWhile is_space a @ CHR '' '' # b"
    using ma assms(2) by (rule dropWhile_append1)
  have mb: "hd b \<in> set (rev b)" using assms(3) by simp
  have d2: "dropWhile is_space (rev b @ CHR '' '' # rev (dropWhile is_space a))
            = dropWhile is_space (rev b) @ CHR '' '' # rev (dropWhile is_space a)"
    using mb assms(4) by (rule dropWhile_append1)
  have "strip (a @ CHR '' '' # b)
        = rev (dropWhile is_space (rev b @ CHR '' '' # rev (dropWhile is_space a)))"
    unfolding strip_def d1 by simp
  also have "\<dots> = dropWhile is_space a @ CHR '' '' # rev (dropWhile is_space (rev b))"
    unfolding d2 by simp
  finally show ?thesis
    using strip_no_trail [OF assms(1,2)] strip_no_lead [OF assms(3,4)] by simp
qed

lemma normalize_lead: "list_all is_space w \<Longrightarrow> normalize_text (w @ x) = normalize_text x"
proof (cases "w = []")
  case True
  then show ?thesis by simp
next
  case False
  assume w: "list_all is_space w"
  have l: "is_space (last w)" using w False by (simp add: list_all_iff)
  have "sub_ws False (w @ x) = CHR '' '' # sub_ws True x"
    using False l by (simp add: sub_ws_append sub_ws_all_space_False [OF w False])
  then have "strip (sub_ws False (w @ x)) = strip (sub_ws True x)"
    using strip_lead [of "[CHR '' '']" "sub_ws True x"] by (simp add: is_space_blank)
  also have "\<dots> = strip (sub_ws False x)"
    by (rule strip_cong_lstrip) (rule lstrip_sub_ws)
  finally show ?thesis by (simp add: normalize_text_def)
qed

lemma normalize_trail: "list_all is_space w \<Longrightarrow> normalize_text (x @ w) = normalize_text x"
proof -
  assume w: "list_all is_space w"
  have "strip (sub_ws False (x @ w)) = strip (sub_ws False x)"
    unfolding sub_ws_append by (rule strip_trail) (rule sub_ws_all_space [OF w])
  then show ?thesis by (simp add: normalize_text_def)
qed

lemma normalize_run:
  assumes w: "w \<noteq> []" "list_all is_space w"
    and u: "u \<noteq> []" "\<not> is_space (last u)"
    and v: "v \<noteq> []" "\<not> is_space (hd v)"
  shows "normalize_text (u @ w @ v) = normalize_text u @ CHR '' '' # normalize_text v"
proof -
  have lw: "is_space (last w)" using w by (simp add: list_all_iff)
  have "sub_ws False (w @ v) = CHR '' '' # sub_ws False v"
    using w lw by (simp add: sub_ws_append sub_ws_all_space_False sub_ws_flag [OF v, of True])
  then have s: "sub_ws False (u @ w @ v) = sub_ws False u @ CHR '' '' # sub_ws False v"
    using u by (simp add: sub_ws_append [of False u])
  have a: "sub_ws False u \<noteq> []" "\<not> is_space (last (sub_ws False u))"
    using last_sub_ws [OF u, of False] u(2) by simp_all
  have b: "sub_ws False v \<noteq> []" "\<not> is_space (hd (sub_ws False v))"
    using hd_sub_ws [OF v, of False] v(2) by simp_all
  have "strip (sub_ws False (u @ w @ v))
        = strip (sub_ws False u) @ CHR '' '' # strip (sub_ws False v)"
    unfolding s by (rule strip_join [OF a b])
  then show ?thesis
    by (simp add: normalize_text_def lower_def lower_char_space [OF is_space_blank])
qed

lemma single_spaced_no_space: "list_all (\<lambda>c. \<not> is_space c) x \<Longrightarrow> single_spaced b x"
  by (induction x arbitrary: b) simp_all

lemma stripped_no_space: "list_all (\<lambda>c. \<not> is_space c) x \<Longrightarrow> stripped x"
  by (cases x rule: rev_cases) (auto simp: stripped_def list_all_iff hd_append)

lemma normalize_no_space: "list_all (\<lambda>c. \<not> is_space c) x \<Longrightarrow> normalize_text x = lower x"
  by (simp add: normalize_text_def sub_ws_fixed [OF single_spaced_no_space]
        strip_fixed [OF stripped_no_space])


text \<open>
  C4. For every string \<open>x\<close>, \<open>normalize_text\<close> is idempotent. Its result has every run
  of whitespace collapsed to one space (each whitespace character left is a space that
  follows no whitespace), has no whitespace at either end, is in lower case, and keeps the
  characters of \<open>x\<close> that are not whitespace, lowered, in their order. Whitespace before or
  after a text does not change the result; a run of whitespace \<open>w\<close> between a text \<open>u\<close>
  that ends with no whitespace and a text \<open>v\<close> that starts with none leaves exactly one
  space between the results for \<open>u\<close> and \<open>v\<close>; and a text without whitespace is only
  lowered.
\<close>

theorem normalize_text_idempotent:
  "normalize_text (normalize_text x) = normalize_text x
   \<and> single_spaced False (normalize_text x)
   \<and> (normalize_text x = [] \<or> (\<not> is_space (hd (normalize_text x)) \<and> \<not> is_space (last (normalize_text x))))
   \<and> lower (normalize_text x) = normalize_text x
   \<and> filter (\<lambda>c. \<not> is_space c) (normalize_text x) = lower (filter (\<lambda>c. \<not> is_space c) x)
   \<and> (list_all is_space w \<longrightarrow>
        normalize_text (w @ x) = normalize_text x \<and> normalize_text (x @ w) = normalize_text x)
   \<and> (w \<noteq> [] \<and> list_all is_space w \<and> u \<noteq> [] \<and> \<not> is_space (last u)
        \<and> v \<noteq> [] \<and> \<not> is_space (hd v) \<longrightarrow>
        normalize_text (u @ w @ v) = normalize_text u @ CHR '' '' # normalize_text v)
   \<and> (list_all (\<lambda>c. \<not> is_space c) x \<longrightarrow> normalize_text x = lower x)"
proof -
  let ?n = "normalize_text x"
  have ss: "single_spaced False ?n"
    unfolding normalize_text_def
    by (simp only: single_spaced_lower) (rule single_spaced_strip, rule single_spaced_sub_ws)
  have st: "stripped ?n"
    unfolding normalize_text_def by (rule stripped_lower, rule stripped_strip)
  have lo: "lower ?n = ?n"
    unfolding normalize_text_def by (rule lower_idem)
  have "normalize_text ?n = lower (strip (sub_ws False ?n))"
    by (simp only: normalize_text_def)
  also have "\<dots> = lower (strip ?n)" using ss by (simp only: sub_ws_fixed)
  also have "\<dots> = lower ?n" using st by (simp only: strip_fixed)
  finally have idem: "normalize_text ?n = ?n" using lo by simp
  have fl: "filter (\<lambda>c. \<not> is_space c) ?n = lower (filter (\<lambda>c. \<not> is_space c) x)"
    unfolding normalize_text_def by (simp only: filter_lower filter_strip filter_sub_ws)
  have st': "?n = [] \<or> (\<not> is_space (hd ?n) \<and> \<not> is_space (last ?n))"
    using st by (simp only: stripped_def)
  have edge: "list_all is_space w \<longrightarrow>
        normalize_text (w @ x) = normalize_text x \<and> normalize_text (x @ w) = normalize_text x"
    by (intro impI conjI) (erule normalize_lead normalize_trail)+
  have run: "w \<noteq> [] \<and> list_all is_space w \<and> u \<noteq> [] \<and> \<not> is_space (last u)
        \<and> v \<noteq> [] \<and> \<not> is_space (hd v) \<longrightarrow>
        normalize_text (u @ w @ v) = normalize_text u @ CHR '' '' # normalize_text v"
  proof
    assume h: "w \<noteq> [] \<and> list_all is_space w \<and> u \<noteq> [] \<and> \<not> is_space (last u)
        \<and> v \<noteq> [] \<and> \<not> is_space (hd v)"
    then have "w \<noteq> []" "list_all is_space w" "u \<noteq> []" "\<not> is_space (last u)"
      "v \<noteq> []" "\<not> is_space (hd v)"
      by simp_all
    then show "normalize_text (u @ w @ v) = normalize_text u @ CHR '' '' # normalize_text v"
      by (rule normalize_run)
  qed
  have plain: "list_all (\<lambda>c. \<not> is_space c) x \<longrightarrow> normalize_text x = lower x"
    by (rule impI) (erule normalize_no_space)
  show ?thesis
    by (intro conjI) (rule idem ss st' lo fl edge run plain)+
qed

text \<open>
  The text made of a space, a tab, \<open>Hi\<close>, a newline, a space, \<open>Yo\<close> and a carriage
  return normalises to \<open>hi yo\<close>, which normalises to itself; and between \<open>Hi\<close> and
  \<open>Yo\<close> the run of a tab, a newline and a space leaves one space.
\<close>

theorem normalize_text_idempotent_witness:
  "normalize_text [CHR '' '', CHR 0x09, CHR ''H'', CHR ''i'', CHR 0x0A, CHR '' '', CHR ''Y'', CHR ''o'', CHR 0x0D] = ''hi yo''
   \<and> normalize_text ''hi yo'' = ''hi yo''
   \<and> list_all is_space [CHR 0x09, CHR 0x0A, CHR '' '']
   \<and> \<not> is_space (last ''Hi'') \<and> \<not> is_space (hd ''Yo'')
   \<and> normalize_text (''Hi'' @ [CHR 0x09, CHR 0x0A, CHR '' ''] @ ''Yo'')
       = normalize_text ''Hi'' @ CHR '' '' # normalize_text ''Yo''
   \<and> normalize_text (''Hi'' @ [CHR 0x09, CHR 0x0A, CHR '' ''] @ ''Yo'') = ''hi yo''"
  using normalize_text_idempotent [of "[CHR '' '', CHR 0x09, CHR ''H'', CHR ''i'', CHR 0x0A, CHR '' '', CHR ''Y'', CHR ''o'', CHR 0x0D]" "[CHR 0x09, CHR 0x0A, CHR '' '']" "''Hi''" "''Yo''"]
  by code_simp

subsection \<open>Keyword match rate\<close>

lemma find_map_fst:
  "find P (map fst al) = map_option fst (find (\<lambda>e. P (fst e)) al)"
  by (induction al) simp_all

lemma find_map_of:
  "distinct (map fst al) \<Longrightarrow> find Q al = Some e \<Longrightarrow> map_of al (fst e) = Some (snd e)"
proof (induction al)
  case Nil
  then show ?case by simp
next
  case (Cons a al)
  show ?case
  proof (cases "Q a")
    case True
    with Cons.prems show ?thesis by (cases a) auto
  next
    case False
    with Cons.prems have f: "find Q al = Some e" by simp
    then have "e \<in> set al" by (auto simp: find_Some_iff)
    then have "fst e \<in> fst ` set al" by (rule imageI)
    moreover have "fst a \<notin> fst ` set al" using Cons.prems(1) by simp
    ultimately have ne: "fst a \<noteq> fst e" by metis
    have "distinct (map fst al)" using Cons.prems(1) by simp
    then have "map_of al (fst e) = Some (snd e)" using f by (rule Cons.IH)
    with ne show ?thesis by (cases a) auto
  qed
qed

lemma ROLE_KEYWORDS_distinct: "distinct (map fst ROLE_KEYWORDS)"
  by (simp add: ROLE_KEYWORDS_def)

lemma lower_lowercase: "list_all (\<lambda>c. lower_char c = c) s \<Longrightarrow> lower s = s"
  by (induction s) (simp_all add: lower_def)

lemma ROLE_KEYWORDS_lower:
  "list_all (\<lambda>e. snd e \<noteq> [] \<and> list_all (\<lambda>kw. list_all (\<lambda>c. lower_char c = c) kw) (snd e)) ROLE_KEYWORDS"
  by code_simp


lemma ROLE_KEYWORDS_entry:
  assumes "e \<in> set ROLE_KEYWORDS"
  shows "snd e \<noteq> []" and "\<And>kw. kw \<in> set (snd e) \<Longrightarrow> lower kw = kw"
proof -
  from assms ROLE_KEYWORDS_lower
  have h: "snd e \<noteq> [] \<and> list_all (\<lambda>kw. list_all (\<lambda>c. lower_char c = c) kw) (snd e)"
    by (simp add: list_all_iff)
  then show "snd e \<noteq> []" by simp
  fix kw assume "kw \<in> set (snd e)"
  with h have "list_all (\<lambda>c. lower_char c = c) kw" by (simp add: list_all_iff)
  then show "lower kw = kw" by (rule lower_lowercase)
qed

lemma kmr_refines:
  "derive_resume_metrics_kmr resume_text role_title = spec_keyword_match_rate resume_text role_title"
proof (cases "spec_resolve_role role_title")
  case None
  then have "find (\<lambda>rk. sublist rk (lower role_title)) (map fst ROLE_KEYWORDS) = None"
    by (simp add: find_map_fst spec_resolve_role_def)
  then show ?thesis
    using None by (simp add: derive_resume_metrics_kmr_def spec_keyword_match_rate_def)
next
  case (Some e)
  then have f: "find (\<lambda>entry. sublist (fst entry) (lower role_title)) ROLE_KEYWORDS = Some e"
    by (simp add: spec_resolve_role_def)
  then have mem: "e \<in> set ROLE_KEYWORDS" by (auto simp: find_Some_iff)
  have base: "find (\<lambda>rk. sublist rk (lower role_title)) (map fst ROLE_KEYWORDS) = Some (fst e)"
    using f by (simp add: find_map_fst)
  have look: "map_of ROLE_KEYWORDS (fst e) = Some (snd e)"
    using ROLE_KEYWORDS_distinct f by (rule find_map_of)
  have ne: "snd e \<noteq> []" using mem by (rule ROLE_KEYWORDS_entry(1))
  have low: "\<And>kw. kw \<in> set (snd e) \<Longrightarrow> lower kw = kw"
    using mem by (rule ROLE_KEYWORDS_entry(2))
  have flt: "filter (\<lambda>kw. sublist (lower kw) (normalize_text resume_text)) (snd e)
             = filter (\<lambda>kw. sublist kw (normalize_text resume_text)) (snd e)"
    by (rule filter_cong) (simp_all add: low)
  have len: "max (Suc 0) (length (snd e)) = length (snd e)"
    using ne by (cases "snd e") simp_all
  have "derive_resume_metrics_kmr resume_text role_title = keyword_match_rate resume_text (snd e)"
    using base look ne by (simp add: derive_resume_metrics_kmr_def)
  also have "\<dots> = real (length (filter (\<lambda>kw. sublist kw (normalize_text resume_text)) (snd e)))
                     / real (length (snd e))"
    using ne by (simp add: keyword_match_rate_def Let_def flt len)
  finally show ?thesis using Some by (simp add: spec_keyword_match_rate_def)
qed

lemma kmr_example: "derive_resume_metrics_kmr ''python, docker'' ''software engineer'' = 2 / 14"
  by code_simp

text \<open>
  C5. The metric \<open>keyword_match_rate\<close> that \<open>derive_resume_metrics\<close> computes is the
  fraction of the resolved role's keywords that are substrings of the normalised text; the
  role is the first catalog title that is a substring of the caller's title in lower case,
  and the rate is 0 when no title is. For the role \<open>software engineer\<close>, whose entry has
  14 keywords, and the text \<open>python, docker\<close> the rate is 2/14.
\<close>

theorem keyword_match_rate_fraction:
  "derive_resume_metrics_kmr resume_text role_title = spec_keyword_match_rate resume_text role_title
   \<and> derive_resume_metrics_kmr ''python, docker'' ''software engineer'' = 2 / 14
   \<and> map_option length (map_of ROLE_KEYWORDS ''software engineer'') = Some 14"
proof -
  have "map_option length (map_of ROLE_KEYWORDS ''software engineer'') = Some 14"
    by (simp add: ROLE_KEYWORDS_def)
  then show ?thesis using kmr_refines kmr_example by simp
qed

subsection \<open>The resume-content rubric\<close>

lemma int_bool_range: "0 \<le> int_bool x \<and> int_bool x \<le> 1"
  by (auto simp: int_bool_def split: option.splits bool.splits)

lemma py_round_floor:
  "\<lfloor>x\<rfloor> \<le> py_round x \<and> py_round x \<le> \<lfloor>x\<rfloor> + 1"
  by (simp add: py_round_def Let_def)

lemma py_round_range:
  assumes "0 \<le> x" and "x \<le> 100"
  shows "0 \<le> py_round x \<and> py_round x \<le> 100"
proof (cases "\<lfloor>x\<rfloor> = 100")
  case True
  then have "x - of_int \<lfloor>x\<rfloor> = 0"
    using assms by linarith
  then show ?thesis
    using True by (simp add: py_round_def Let_def)
next
  case False
  have f0: "0 \<le> \<lfloor>x\<rfloor>" using assms by simp
  have "\<lfloor>x\<rfloor> \<le> \<lfloor>100::real\<rfloor>" using assms(2) by (rule floor_mono)
  then have "\<lfloor>x\<rfloor> \<le> 100" by (simp only: floor_numeral)
  then have f1: "\<lfloor>x\<rfloor> \<le> 99" using False by linarith
  show ?thesis
    using f0 f1 py_round_floor [of x] by linarith
qed

lemma ats_shape:
  "\<exists>l a k b c.
     0 \<le> l \<and> l \<le> 3 \<and> 0 \<le> a \<and> a \<le> 4 \<and> 0 \<le> k \<and> k \<le> 3 \<and> 0 \<le> b \<and> b \<le> 2 \<and> 0 \<le> c \<and> c \<le> 3
     \<and> ats_resume_scoring m =
       \<lparr> items =
           [\<lparr> item_name = ''ATS-friendly layout & structure'', item_earned = l, item_max = 3 \<rparr>,
            \<lparr> item_name = ''Action verbs & quantified results'', item_earned = a, item_max = 4 \<rparr>,
            \<lparr> item_name = ''Job-relevant keyword alignment'', item_earned = k, item_max = 3 \<rparr>,
            \<lparr> item_name = ''Brevity & conciseness'', item_earned = b, item_max = 2 \<rparr>,
            \<lparr> item_name = ''Minimal jargon / repetition'', item_earned = c, item_max = 3 \<rparr>],
          subtotal_earned = l + a + k + b + c,
          subtotal_max = 15,
          score_100 = py_round (real_of_int (l + a + k + b + c) / 15 * 100) \<rparr>"
proof -
  define l where "l = int_bool (m_sections_present m) + int_bool (m_single_column m)
                       + int_bool (m_text_extractable m)"
  define av where "av = get_or (m_action_verbs_per_bullet m) 0"
  define qr where "qr = get_or (m_quantified_bullets_ratio m) 0"
  define a :: int where "a = (if av \<ge> 8 / 10 then 2 else if av \<ge> 5 / 10 then 1 else 0)
                        + (if qr \<ge> 6 / 10 then 2 else if qr \<ge> 3 / 10 then 1 else 0)"
  define kmr where "kmr = get_or (m_keyword_match_rate m) 0"
  define k :: int where "k = (if kmr \<ge> 75 / 100 then 3 else if kmr \<ge> 5 / 10 then 2
                          else if kmr \<ge> 3 / 10 then 1 else 0)"
  define b :: int where "b = (if get_or (m_pages m) 2 \<le> 2 then 1 else 0)
         + (if get_or (m_avg_bullets_per_job m) 6 \<le> 7 then 1 else 0)"
  define c :: int where "c = (if get_or (m_repetition_rate m) (15 / 100) \<le> 10 / 100 then 1 else 0)
         + (if get_or (m_jargon_rate m) (2 / 10) \<le> 15 / 100 then 1 else 0)
         + (if get_or (m_unique_skills_count m) 8 \<ge> 8 then 1 else 0)"
  have bl: "0 \<le> l \<and> l \<le> 3"
    using int_bool_range [of "m_sections_present m"] int_bool_range [of "m_single_column m"]
      int_bool_range [of "m_text_extractable m"]
    unfolding l_def by linarith
  have ba: "0 \<le> a \<and> a \<le> 4" unfolding a_def by simp
  have bk: "0 \<le> k \<and> k \<le> 3" unfolding k_def by simp
  have bb: "0 \<le> b \<and> b \<le> 2" unfolding b_def by simp
  have bc: "0 \<le> c \<and> c \<le> 3" unfolding c_def by simp
  have eq: "ats_resume_scoring m =
       \<lparr> items =
           [\<lparr> item_name = ''ATS-friendly layout & structure'', item_earned = l, item_max = 3 \<rparr>,
            \<lparr> item_name = ''Action verbs & quantified results'', item_earned = a, item_max = 4 \<rparr>,
            \<lparr> item_name = ''Job-relevant keyword alignment'', item_earned = k, item_max = 3 \<rparr>,
            \<lparr> item_name = ''Brevity & conciseness'', item_earned = b, item_max = 2 \<rparr>,
            \<lparr> item_name = ''Minimal jargon / repetition'', item_earned = c, item_max = 3 \<rparr>],
          subtotal_earned = l + a + k + b + c,
          subtotal_max = 15,
          score_100 = py_round (real_of_int (l + a + k + b + c) / 15 * 100) \<rparr>"
    unfolding ats_resume_scoring_def Let_def l_def a_def k_def b_def c_def av_def qr_def kmr_def
    by simp
  show ?thesis using bl ba bk bb bc eq by blast
qed

text \<open>
  C6. For every metrics input, the points earned in the resume-content rubric lie in
  \<open>[0,15]\<close>: they are the sum of the five items' points, each item earns between 0 and
  its maximum, and the maxima are 3, 4, 3, 2 and 3. The normalised score is
  \<open>round(earned / 15 * 100)\<close>, and it lies in \<open>[0,100]\<close>.
\<close>

theorem ats_resume_scoring_bounds:
  "0 \<le> subtotal_earned (ats_resume_scoring m)
   \<and> subtotal_earned (ats_resume_scoring m) \<le> 15
   \<and> subtotal_max (ats_resume_scoring m) = 15
   \<and> subtotal_earned (ats_resume_scoring m) = sum_list (map item_earned (items (ats_resume_scoring m)))
   \<and> map item_max (items (ats_resume_scoring m)) = [3, 4, 3, 2, 3]
   \<and> list_all (\<lambda>i. 0 \<le> item_earned i \<and> item_earned i \<le> item_max i) (items (ats_resume_scoring m))
   \<and> score_100 (ats_resume_scoring m)
       = py_round (real_of_int (subtotal_earned (ats_resume_scoring m)) / 15 * 100)
   \<and> 0 \<le> score_100 (ats_resume_scoring m) \<and> score_100 (ats_resume_scoring m) \<le> 100"
proof -
  obtain l a k b c where
    r: "0 \<le> l" "l \<le> 3" "0 \<le> a" "a \<le> 4" "0 \<le> k" "k \<le> 3" "0 \<le> b" "b \<le> 2" "0 \<le> c" "c \<le> 3"
    and eq: "ats_resume_scoring m =
       \<lparr> items =
           [\<lparr> item_name = ''ATS-friendly layout & structure'', item_earned = l, item_max = 3 \<rparr>,
            \<lparr> item_name = ''Action verbs & quantified results'', item_earned = a, item_max = 4 \<rparr>,
            \<lparr> item_name = ''Job-relevant keyword alignment'', item_earned = k, item_max = 3 \<rparr>,
            \<lparr> item_name = ''Brevity & conciseness'', item_earned = b, item_max = 2 \<rparr>,
            \<lparr> item_name = ''Minimal jargon / repetition'', item_earned = c, item_max = 3 \<rparr>],
          subtotal_earned = l + a + k + b + c,
          subtotal_max = 15,
          score_100 = py_round (real_of_int (l + a + k + b + c) / 15 * 100) \<rparr>"
    using ats_shape [of m] by blast
  define t where "t = l + a + k + b + c"
  have t: "0 \<le> t" "t \<le> 15" using r unfolding t_def by linarith+
  have "0 \<le> real_of_int t / 15 * 100" "real_of_int t / 15 * 100 \<le> 100"
    using t by simp_all
  then have pr: "0 \<le> py_round (real_of_int t / 15 * 100) \<and> py_round (real_of_int t / 15 * 100) \<le> 100"
    by (rule py_round_range)
  show ?thesis
    unfolding eq using r t pr unfolding t_def by simp
qed

subsection \<open>The shape of the two reports\<close>

lemma weights_lookup:
  "py_getitem TECHNICAL_WEIGHTS ''GitHub Profile'' = Inr 25"
  "py_getitem TECHNICAL_WEIGHTS ''LeetCode/DSA Skills'' = Inr 20"
  "py_getitem TECHNICAL_WEIGHTS ''Portfolio Website'' = Inr 20"
  "py_getitem TECHNICAL_WEIGHTS ''Resume (ATS Score)'' = Inr 10"
  "py_getitem TECHNICAL_WEIGHTS ''Certifications & Branding'' = Inr 10"
  by (simp_all add: py_getitem_def TECHNICAL_WEIGHTS_def)

lemma github_block_shape:
  "\<exists>s. github_block g TECHNICAL_WEIGHTS
          = Inr (s, if g then [] else [''Add a GitHub profile link with pinned, recent projects.''])
       \<and> score s = (if g then 11 else 0) \<and> weight s = 25"
  by (simp add: github_block_def weights_lookup Let_def)

lemma leetcode_block_shape:
  "\<exists>s. leetcode_block g TECHNICAL_WEIGHTS
          = Inr (s, if g then [] else [''Include a LeetCode link to showcase DSA practice.''])
       \<and> score s = (if g then 8 else 0) \<and> weight s = 20"
  by (simp add: leetcode_block_def weights_lookup Let_def)

lemma portfolio_block_shape:
  "\<exists>s. portfolio_block g TECHNICAL_WEIGHTS
          = Inr (s, if g then [] else [''Publish a simple portfolio with 2'' @ en_dash @ ''3 best projects.''])
       \<and> score s = (if g then 7 else 0) \<and> weight s = 20"
  by (simp add: portfolio_block_def weights_lookup Let_def)

lemma linkedin_block_shape:
  "\<exists>s. linkedin_block g
          = (s, if g then [] else [''Add a public LinkedIn link (custom URL preferred).''])
       \<and> score s = (if g then 3 else 0) \<and> weight s = 3"
  by (simp add: linkedin_block_def Let_def)

lemma resume_block_shape:
  "\<exists>s. resume_block TECHNICAL_WEIGHTS = Inr s
       \<and> score s = 65 \<and> grade s = ''Average'' \<and> weight s = 10"
  by (simp add: resume_block_def weights_lookup Let_def get_grade_tag_def)

lemma cert_block_shape:
  "\<exists>s. cert_block g TECHNICAL_WEIGHTS = Inr s
       \<and> score s = (if g then 65 else 0) \<and> weight s = 10
       \<and> recommendations s = Some (if g then [] else get_cert_suggestions ''technical'')"
  by (simp add: cert_block_def weights_lookup Let_def)

lemma sections_in_order:
  "AList.update ''Certifications & Branding'' s6
     (AList.update ''Resume (ATS Score)'' s5
     (AList.update ''LinkedIn'' s4
     (AList.update ''Portfolio Website'' s3
     (AList.update ''LeetCode/DSA Skills'' s2
     (AList.update ''GitHub Profile'' s1 [])))))
   = [(''GitHub Profile'', s1), (''LeetCode/DSA Skills'', s2), (''Portfolio Website'', s3),
      (''LinkedIn'', s4), (''Resume (ATS Score)'', s5), (''Certifications & Branding'', s6)]"
  by simp

lemma calculate_shape:
  "\<exists>r s1 s2 s3 s4 s5 s6.
     calculate_dynamic_ats_score resume_text github_username leetcode_username extracted_links = Inr r
     \<and> sections r =
           [(''GitHub Profile'', s1), (''LeetCode/DSA Skills'', s2), (''Portfolio Website'', s3),
            (''LinkedIn'', s4), (''Resume (ATS Score)'', s5), (''Certifications & Branding'', s6)]
     \<and> suggestions r =
           (if truthy github_username then []
            else [''Add a GitHub profile link with pinned, recent projects.''])
           @ (if truthy leetcode_username then []
              else [''Include a LeetCode link to showcase DSA practice.''])
           @ (if re_search portfolio_url_pattern resume_text then []
              else [''Publish a simple portfolio with 2'' @ en_dash @ ''3 best projects.''])
           @ (if re_search linkedin_pattern resume_text then []
              else [''Add a public LinkedIn link (custom URL preferred).''])
     \<and> score s1 = (if truthy github_username then 11 else 0) \<and> weight s1 = 25
     \<and> score s2 = (if truthy leetcode_username then 8 else 0) \<and> weight s2 = 20
     \<and> score s3 = (if re_search portfolio_url_pattern resume_text then 7 else 0) \<and> weight s3 = 20
     \<and> score s4 = (if re_search linkedin_pattern resume_text then 3 else 0) \<and> weight s4 = 3
     \<and> score s5 = 65 \<and> grade s5 = ''Average'' \<and> weight s5 = 10
     \<and> resume_block TECHNICAL_WEIGHTS = Inr s5
     \<and> score s6 = (if re_search cert_pattern resume_text then 65 else 0) \<and> weight s6 = 10
     \<and> recommendations s6
         = Some (if re_search cert_pattern resume_text then [] else get_cert_suggestions ''technical'')"
proof -
  obtain s1 where b1: "github_block (truthy github_username) TECHNICAL_WEIGHTS
          = Inr (s1, if truthy github_username then []
                     else [''Add a GitHub profile link with pinned, recent projects.''])"
    and p1: "score s1 = (if truthy github_username then 11 else 0)" "weight s1 = 25"
    using github_block_shape [of "truthy github_username"] by blast
  obtain s2 where b2: "leetcode_block (truthy leetcode_username) TECHNICAL_WEIGHTS
          = Inr (s2, if truthy leetcode_username then []
                     else [''Include a LeetCode link to showcase DSA practice.''])"
    and p2: "score s2 = (if truthy leetcode_username then 8 else 0)" "weight s2 = 20"
    using leetcode_block_shape [of "truthy leetcode_username"] by blast
  obtain s3 where b3: "portfolio_block (re_search portfolio_url_pattern resume_text) TECHNICAL_WEIGHTS
          = Inr (s3, if re_search portfolio_url_pattern resume_text then []
                     else [''Publish a simple portfolio with 2'' @ en_dash @ ''3 best projects.''])"
    and p3: "score s3 = (if re_search portfolio_url_pattern resume_text then 7 else 0)" "weight s3 = 20"
    using portfolio_block_shape [of "re_search portfolio_url_pattern resume_text"] by blast
  obtain s4 where b4: "linkedin_block (re_search linkedin_pattern resume_text)
          = (s4, if re_search linkedin_pattern resume_text then []
                 else [''Add a public LinkedIn link (custom URL preferred).''])"
    and p4: "score s4 = (if re_search linkedin_pattern resume_text then 3 else 0)" "weight s4 = 3"
    using linkedin_block_shape [of "re_search linkedin_pattern resume_text"] by blast
  obtain s5 where b5: "resume_block TECHNICAL_WEIGHTS = Inr s5"
    and p5: "score s5 = 65" "grade s5 = ''Average''" "weight s5 = 10"
    using resume_block_shape by blast
  obtain s6 where b6: "cert_block (re_search cert_pattern resume_text) TECHNICAL_WEIGHTS = Inr s6"
    and p6: "score s6 = (if re_search cert_pattern resume_text then 65 else 0)" "weight s6 = 10"
      "recommendations s6
         = Some (if re_search cert_pattern resume_text then [] else get_cert_suggestions ''technical'')"
    using cert_block_shape [of "re_search cert_pattern resume_text"] by blast
  have "\<exists>t a g. calculate_dynamic_ats_score resume_text github_username leetcode_username extracted_links
       = Inr \<lparr> sections =
                 [(''GitHub Profile'', s1), (''LeetCode/DSA Skills'', s2), (''Portfolio Website'', s3),
                  (''LinkedIn'', s4), (''Resume (ATS Score)'', s5), (''Certifications & Branding'', s6)],
               total_score = t, overall_score_average = a, overall_grade = g,
               suggestions =
                 (if truthy github_username then []
                  else [''Add a GitHub profile link with pinned, recent projects.''])
                 @ (if truthy leetcode_username then []
                    else [''Include a LeetCode link to showcase DSA practice.''])
                 @ (if re_search portfolio_url_pattern resume_text then []
                    else [''Publish a simple portfolio with 2'' @ en_dash @ ''3 best projects.''])
                 @ (if re_search linkedin_pattern resume_text then []
                    else [''Add a public LinkedIn link (custom URL preferred).'']) \<rparr>"
    unfolding calculate_dynamic_ats_score_def Let_def b1 b2 b3 b4 b5 b6 sum.case prod.case
      sections_in_order
    by blast
  then obtain r where
    "calculate_dynamic_ats_score resume_text github_username leetcode_username extracted_links = Inr r"
    and "sections r =
           [(''GitHub Profile'', s1), (''LeetCode/DSA Skills'', s2), (''Portfolio Website'', s3),
            (''LinkedIn'', s4), (''Resume (ATS Score)'', s5), (''Certifications & Branding'', s6)]"
    and "suggestions r =
           (if truthy github_username then []
            else [''Add a GitHub profile link with pinned, recent projects.''])
           @ (if truthy leetcode_username then []
              else [''Include a LeetCode link to showcase DSA practice.''])
           @ (if re_search portfolio_url_pattern resume_text then []
              else [''Publish a simple portfolio with 2'' @ en_dash @ ''3 best projects.''])
           @ (if re_search linkedin_pattern resume_text then []
              else [''Add a public LinkedIn link (custom URL preferred).''])"
    by force
  with p1 p2 p3 p4 p5 p6 b5 show ?thesis by blast
qed

lemma sec_in_order:
  "sec (sec (sec (sec (sec (sec [] ''GitHub Profile'' c1) ''LeetCode/DSA Skills'' c2)
      ''Portfolio Website'' c3) ''LinkedIn'' c4) ''Resume (ATS Score)'' c5)
      ''Certifications & Branding'' c6
   = [(''GitHub Profile'', \<lparr> score_su = c1, grade_su = get_grade_tag_su (real_of_int c1) \<rparr>),
      (''LeetCode/DSA Skills'', \<lparr> score_su = c2, grade_su = get_grade_tag_su (real_of_int c2) \<rparr>),
      (''Portfolio Website'', \<lparr> score_su = c3, grade_su = get_grade_tag_su (real_of_int c3) \<rparr>),
      (''LinkedIn'', \<lparr> score_su = c4, grade_su = get_grade_tag_su (real_of_int c4) \<rparr>),
      (''Resume (ATS Score)'', \<lparr> score_su = c5, grade_su = get_grade_tag_su (real_of_int c5) \<rparr>),
      (''Certifications & Branding'', \<lparr> score_su = c6, grade_su = get_grade_tag_su (real_of_int c6) \<rparr>)]"
  by (simp add: sec_def)

lemma append_when: "(if \<not> c then xs @ [m] else xs) = xs @ (if c then [] else [m])"
  by simp

lemma calculate_su_sections:
  "sections_su (calculate_dynamic_ats_score_su resume_text github_username leetcode_username
                  extracted_links domain)
   = sec (sec (sec (sec (sec (sec []
       ''GitHub Profile''
         (if truthy github_username \<or> sublist ''github.com'' (lower resume_text) then 70 else 0))
       ''LeetCode/DSA Skills''
         (if truthy leetcode_username \<or> sublist ''leetcode.com'' (lower resume_text) then 60 else 0))
       ''Portfolio Website''
         (if re_search portfolio_pattern_su resume_text then 55 else 0))
       ''LinkedIn''
         (if has_link (get_or extracted_links []) ''LinkedIn''
             \<or> sublist ''linkedin.com/in/'' (lower resume_text) then 60 else 0))
       ''Resume (ATS Score)'' 60)
       ''Certifications & Branding''
         (if re_search cert_pattern_su resume_text then 50 else 0)"
  unfolding calculate_dynamic_ats_score_su_def Let_def report_su.simps
  by (rule refl)

lemma calculate_su_suggestions:
  "suggestions_su (calculate_dynamic_ats_score_su resume_text github_username leetcode_username
                     extracted_links domain)
   = (if truthy github_username \<or> sublist ''github.com'' (lower resume_text) then []
      else [''Add a public GitHub link with recent activity.''])
     @ (if truthy leetcode_username \<or> sublist ''leetcode.com'' (lower resume_text) then []
        else [''Include your LeetCode (or equivalent) problem-solving profile.''])
     @ (if re_search portfolio_pattern_su resume_text then []
        else [''Publish a portfolio (Netlify/Vercel/GitHub Pages) with 2'' @ en_dash @ ''3 write-ups.''])
     @ (if has_link (get_or extracted_links []) ''LinkedIn''
           \<or> sublist ''linkedin.com/in/'' (lower resume_text) then []
        else [''Link a public LinkedIn profile with a clear headline/summary.''])
     @ (if re_search cert_pattern_su resume_text then []
        else [''Add 1'' @ en_dash @ ''2 recent role-relevant certifications.''])"
  unfolding calculate_dynamic_ats_score_su_def Let_def report_su.simps append_when append_assoc
    append_Nil
  by (rule refl)

subsection \<open>The resume section of the report\<close>

text \<open>
  C10. In every report of \<open>calculate_dynamic_ats_score\<close> the section
  \<open>Resume (ATS Score)\<close> is a constant that depends on no argument: in \<^verbatim>\<open>utils.py\<close> it is
  the value of the resume block, with score 65 and grade Average; in
  \<^verbatim>\<open>score_utils.py\<close> it has score 60 and grade Average. The function never reads the
  rubric of \<open>ats_resume_scoring\<close>.
\<close>

theorem resume_section_placeholder:
  "(\<exists>r s. calculate_dynamic_ats_score resume_text github_username leetcode_username extracted_links = Inr r
        \<and> map_of (sections r) ''Resume (ATS Score)'' = Some s
        \<and> resume_block TECHNICAL_WEIGHTS = Inr s
        \<and> score s = 65 \<and> grade s = ''Average'')
   \<and> map_of (sections_su (calculate_dynamic_ats_score_su resume_text github_username
                              leetcode_username links domain)) ''Resume (ATS Score)''
       = Some \<lparr> score_su = 60, grade_su = ''Average'' \<rparr>"
proof -
  obtain r s1 s2 s3 s4 s5 s6 where
    eq: "calculate_dynamic_ats_score resume_text github_username leetcode_username extracted_links = Inr r"
    and secs: "sections r =
           [(''GitHub Profile'', s1), (''LeetCode/DSA Skills'', s2), (''Portfolio Website'', s3),
            (''LinkedIn'', s4), (''Resume (ATS Score)'', s5), (''Certifications & Branding'', s6)]"
    and p5: "score s5 = 65" "grade s5 = ''Average''" "resume_block TECHNICAL_WEIGHTS = Inr s5"
    using calculate_shape [of resume_text github_username leetcode_username extracted_links]
    by blast
  have "map_of (sections r) ''Resume (ATS Score)'' = Some s5"
    unfolding secs by simp
  then have u: "\<exists>r s. calculate_dynamic_ats_score resume_text github_username leetcode_username extracted_links = Inr r
        \<and> map_of (sections r) ''Resume (ATS Score)'' = Some s
        \<and> resume_block TECHNICAL_WEIGHTS = Inr s
        \<and> score s = 65 \<and> grade s = ''Average''"
    by (intro exI [of _ r] exI [of _ s5] conjI) (rule eq p5 | assumption)+
  have v: "map_of (sections_su (calculate_dynamic_ats_score_su resume_text github_username
                              leetcode_username links domain)) ''Resume (ATS Score)''
       = Some \<lparr> score_su = 60, grade_su = ''Average'' \<rparr>"
    unfolding calculate_su_sections sec_in_order by (simp add: get_grade_tag_su_def)
  from u v show ?thesis by (rule conjI)
qed

subsection \<open>Category weights\<close>

text \<open>
  C3. The declared weights of both tables sum to 100, with 15 for LinkedIn. In every report
  of \<^verbatim>\<open>utils.py\<close>, though, the section \<open>LinkedIn\<close> carries the weight 3 and not the
  declared 15, so the weights attached to the six sections sum to 88.
\<close>

theorem linkedin_section_weight:
  "sum_list (map snd TECHNICAL_WEIGHTS) = 100
   \<and> map_of TECHNICAL_WEIGHTS ''LinkedIn Profile'' = Some 15
   \<and> sum_list (map snd TECHNICAL_WEIGHTS_su) = 100
   \<and> map_of TECHNICAL_WEIGHTS_su ''LinkedIn'' = Some 15
   \<and> (\<exists>r. calculate_dynamic_ats_score resume_text github_username leetcode_username extracted_links = Inr r
          \<and> map (\<lambda>(k, s). (k, weight s)) (sections r) =
              [(''GitHub Profile'', 25), (''LeetCode/DSA Skills'', 20), (''Portfolio Website'', 20),
               (''LinkedIn'', 3), (''Resume (ATS Score)'', 10), (''Certifications & Branding'', 10)]
          \<and> sum_list (map (\<lambda>(k, s). weight s) (sections r)) = 88)"
proof -
  obtain r s1 s2 s3 s4 s5 s6 where
    eq: "calculate_dynamic_ats_score resume_text github_username leetcode_username extracted_links = Inr r"
    and secs: "sections r =
           [(''GitHub Profile'', s1), (''LeetCode/DSA Skills'', s2), (''Portfolio Website'', s3),
            (''LinkedIn'', s4), (''Resume (ATS Score)'', s5), (''Certifications & Branding'', s6)]"
    and w: "weight s1 = 25" "weight s2 = 20" "weight s3 = 20" "weight s4 = 3" "weight s5 = 10"
      "weight s6 = 10"
    using calculate_shape [of resume_text github_username leetcode_username extracted_links]
    by blast
  have a: "map (\<lambda>(k, s). (k, weight s)) (sections r) =
              [(''GitHub Profile'', 25), (''LeetCode/DSA Skills'', 20), (''Portfolio Website'', 20),
               (''LinkedIn'', 3), (''Resume (ATS Score)'', 10), (''Certifications & Branding'', 10)]"
    unfolding secs using w by simp
  have b: "sum_list (map (\<lambda>(k, s). weight s) (sections r)) = 88"
    unfolding secs using w by simp
  have c: "sum_list (map snd TECHNICAL_WEIGHTS) = 100"
    "map_of TECHNICAL_WEIGHTS ''LinkedIn Profile'' = Some 15"
    by (simp_all add: TECHNICAL_WEIGHTS_def)
  have d: "sum_list (map snd TECHNICAL_WEIGHTS_su) = 100"
    "map_of TECHNICAL_WEIGHTS_su ''LinkedIn'' = Some 15"
    by (simp_all add: TECHNICAL_WEIGHTS_su_def)
  have e: "\<exists>r. calculate_dynamic_ats_score resume_text github_username leetcode_username extracted_links = Inr r
          \<and> map (\<lambda>(k, s). (k, weight s)) (sections r) =
              [(''GitHub Profile'', 25), (''LeetCode/DSA Skills'', 20), (''Portfolio Website'', 20),
               (''LinkedIn'', 3), (''Resume (ATS Score)'', 10), (''Certifications & Branding'', 10)]
          \<and> sum_list (map (\<lambda>(k, s). weight s) (sections r)) = 88"
  proof (intro exI conjI)
    show "calculate_dynamic_ats_score resume_text github_username leetcode_username extracted_links = Inr r"
      by (rule eq)
    show "map (\<lambda>(k, s). (k, weight s)) (sections r) =
              [(''GitHub Profile'', 25), (''LeetCode/DSA Skills'', 20), (''Portfolio Website'', 20),
               (''LinkedIn'', 3), (''Resume (ATS Score)'', 10), (''Certifications & Branding'', 10)]"
      by (rule a)
    show "sum_list (map (\<lambda>(k, s). weight s) (sections r)) = 88"
      by (rule b)
  qed
  show ?thesis
    by (intro conjI) (rule c d e)+
qed

subsection \<open>The empty input\<close>

lemma no_match_empty:
  "\<not> re_search portfolio_url_pattern []" "\<not> re_search linkedin_pattern []"
  "\<not> re_search cert_pattern []" "\<not> re_search portfolio_pattern_su []"
  "\<not> re_search cert_pattern_su []"
  by code_simp+

lemma empty_flags:
  "\<not> truthy None" "lower [] = []" "\<not> sublist ''github.com'' []"
  "\<not> sublist ''leetcode.com'' []" "\<not> sublist ''linkedin.com/in/'' []"
  "\<not> has_link (get_or None []) ''LinkedIn''"
  by (simp_all add: truthy_def lower_def has_link_def get_or_def)

lemma empty_report:
  "\<exists>r s1 s2 s3 s4 s5 s6.
     calculate_dynamic_ats_score [] None None [] = Inr r
     \<and> sections r =
           [(''GitHub Profile'', s1), (''LeetCode/DSA Skills'', s2), (''Portfolio Website'', s3),
            (''LinkedIn'', s4), (''Resume (ATS Score)'', s5), (''Certifications & Branding'', s6)]
     \<and> suggestions r =
           [''Add a GitHub profile link with pinned, recent projects.'',
            ''Include a LeetCode link to showcase DSA practice.'',
            ''Publish a simple portfolio with 2'' @ en_dash @ ''3 best projects.'',
            ''Add a public LinkedIn link (custom URL preferred).'']
     \<and> score s1 = 0 \<and> score s2 = 0 \<and> score s3 = 0 \<and> score s4 = 0 \<and> score s5 = 65 \<and> score s6 = 0
     \<and> recommendations s6 = Some (get_cert_suggestions ''technical'')"
  using calculate_shape [of "[]" None None "[]"]
  unfolding if_not_P [OF no_match_empty(1)] if_not_P [OF no_match_empty(2)]
    if_not_P [OF no_match_empty(3)] if_not_P [OF empty_flags(1)] append.simps
  by (elim exE conjE, intro exI conjI) assumption+


text \<open>
  C7. Scoring the empty text with no user names and no links raises nothing and returns a
  full report: every presence test is false and the five presence-based sections score 0
  (the resume section keeps its constant). In \<^verbatim>\<open>utils.py\<close> the suggestions are exactly
  four, for GitHub, LeetCode, the portfolio and LinkedIn; the missing certifications give
  no suggestion but three recommendations inside the certifications section. In
  \<^verbatim>\<open>score_utils.py\<close> the suggestions are exactly five, one per missing category.
\<close>

theorem empty_input_report:
  "(\<exists>r. calculate_dynamic_ats_score [] None None [] = Inr r
      \<and> map (\<lambda>(k, s). (k, score s)) (sections r) =
          [(''GitHub Profile'', 0), (''LeetCode/DSA Skills'', 0), (''Portfolio Website'', 0),
           (''LinkedIn'', 0), (''Resume (ATS Score)'', 65), (''Certifications & Branding'', 0)]
      \<and> suggestions r =
          [''Add a GitHub profile link with pinned, recent projects.'',
           ''Include a LeetCode link to showcase DSA practice.'',
           ''Publish a simple portfolio with 2'' @ en_dash @ ''3 best projects.'',
           ''Add a public LinkedIn link (custom URL preferred).'']
      \<and> length (suggestions r) = 4
      \<and> map_option recommendations (map_of (sections r) ''Certifications & Branding'')
          = Some (Some (get_cert_suggestions ''technical'')))
   \<and> length (get_cert_suggestions ''technical'') = 3
   \<and> map (\<lambda>(k, s). (k, score_su s))
         (sections_su (calculate_dynamic_ats_score_su [] None None None domain)) =
       [(''GitHub Profile'', 0), (''LeetCode/DSA Skills'', 0), (''Portfolio Website'', 0),
        (''LinkedIn'', 0), (''Resume (ATS Score)'', 60), (''Certifications & Branding'', 0)]
   \<and> suggestions_su (calculate_dynamic_ats_score_su [] None None None domain) =
       [''Add a public GitHub link with recent activity.'',
        ''Include your LeetCode (or equivalent) problem-solving profile.'',
        ''Publish a portfolio (Netlify/Vercel/GitHub Pages) with 2'' @ en_dash @ ''3 write-ups.'',
        ''Link a public LinkedIn profile with a clear headline/summary.'',
        ''Add 1'' @ en_dash @ ''2 recent role-relevant certifications.'']
   \<and> length (suggestions_su (calculate_dynamic_ats_score_su [] None None None domain)) = 5
   \<and> \<not> truthy None
   \<and> \<not> re_search portfolio_url_pattern [] \<and> \<not> re_search linkedin_pattern []
   \<and> \<not> re_search cert_pattern [] \<and> \<not> re_search portfolio_pattern_su []
   \<and> \<not> re_search cert_pattern_su []"
proof -
  obtain r s1 s2 s3 s4 s5 s6 where
    eq: "calculate_dynamic_ats_score [] None None [] = Inr r"
    and secs: "sections r =
           [(''GitHub Profile'', s1), (''LeetCode/DSA Skills'', s2), (''Portfolio Website'', s3),
            (''LinkedIn'', s4), (''Resume (ATS Score)'', s5), (''Certifications & Branding'', s6)]"
    and sug: "suggestions r =
           [''Add a GitHub profile link with pinned, recent projects.'',
            ''Include a LeetCode link to showcase DSA practice.'',
            ''Publish a simple portfolio with 2'' @ en_dash @ ''3 best projects.'',
            ''Add a public LinkedIn link (custom URL preferred).'']"
    and sc: "score s1 = 0" "score s2 = 0" "score s3 = 0" "score s4 = 0" "score s5 = 65" "score s6 = 0"
    and rec: "recommendations s6 = Some (get_cert_suggestions ''technical'')"
    using empty_report by (elim exE conjE)
  have a1: "map (\<lambda>(k, s). (k, score s)) (sections r) =
          [(''GitHub Profile'', 0), (''LeetCode/DSA Skills'', 0), (''Portfolio Website'', 0),
           (''LinkedIn'', 0), (''Resume (ATS Score)'', 65), (''Certifications & Branding'', 0)]"
    unfolding secs using sc by simp
  have a2: "length (suggestions r) = 4"
    unfolding sug by simp
  have a3: "map_option recommendations (map_of (sections r) ''Certifications & Branding'')
          = Some (Some (get_cert_suggestions ''technical''))"
    unfolding secs using rec by simp
  have u: "\<exists>r. calculate_dynamic_ats_score [] None None [] = Inr r
      \<and> map (\<lambda>(k, s). (k, score s)) (sections r) =
          [(''GitHub Profile'', 0), (''LeetCode/DSA Skills'', 0), (''Portfolio Website'', 0),
           (''LinkedIn'', 0), (''Resume (ATS Score)'', 65), (''Certifications & Branding'', 0)]
      \<and> suggestions r =
          [''Add a GitHub profile link with pinned, recent projects.'',
           ''Include a LeetCode link to showcase DSA practice.'',
           ''Publish a simple portfolio with 2'' @ en_dash @ ''3 best projects.'',
           ''Add a public LinkedIn link (custom URL preferred).'']
      \<and> length (suggestions r) = 4
      \<and> map_option recommendations (map_of (sections r) ''Certifications & Branding'')
          = Some (Some (get_cert_suggestions ''technical''))"
    by (intro exI [of _ r] conjI) (rule eq a1 sug a2 a3)+
  have b0: "length (get_cert_suggestions ''technical'') = 3"
    by (simp add: get_cert_suggestions_def lower_def lower_char_def)
  have b1: "map (\<lambda>(k, s). (k, score_su s))
         (sections_su (calculate_dynamic_ats_score_su [] None None None domain)) =
       [(''GitHub Profile'', 0), (''LeetCode/DSA Skills'', 0), (''Portfolio Website'', 0),
        (''LinkedIn'', 0), (''Resume (ATS Score)'', 60), (''Certifications & Branding'', 0)]"
    unfolding calculate_su_sections sec_in_order empty_flags(2)
      if_not_P [OF no_match_empty(4)] if_not_P [OF no_match_empty(5)]
    by (simp add: empty_flags)
  have b2: "suggestions_su (calculate_dynamic_ats_score_su [] None None None domain) =
       [''Add a public GitHub link with recent activity.'',
        ''Include your LeetCode (or equivalent) problem-solving profile.'',
        ''Publish a portfolio (Netlify/Vercel/GitHub Pages) with 2'' @ en_dash @ ''3 write-ups.'',
        ''Link a public LinkedIn profile with a clear headline/summary.'',
        ''Add 1'' @ en_dash @ ''2 recent role-relevant certifications.'']"
    unfolding calculate_su_suggestions empty_flags(2)
      if_not_P [OF no_match_empty(4)] if_not_P [OF no_match_empty(5)]
    by (simp add: empty_flags)
  have b3: "length (suggestions_su (calculate_dynamic_ats_score_su [] None None None domain)) = 5"
    unfolding b2 by simp
  show ?thesis
    by (intro conjI) (rule u b0 b1 b2 b3 empty_flags(1) no_match_empty)+
qed

text \<open>
  The specification asks for five suggestions; the report of \<^verbatim>\<open>utils.py\<close> for the
  empty input has no list of five.
\<close>

theorem empty_input_suggestions_counterexample:
  "\<not> (\<exists>r. calculate_dynamic_ats_score [] None None [] = Inr r \<and> length (suggestions r) = 5)"
proof
  assume "\<exists>r. calculate_dynamic_ats_score [] None None [] = Inr r \<and> length (suggestions r) = 5"
  then obtain r where r: "calculate_dynamic_ats_score [] None None [] = Inr r"
    and five: "length (suggestions r) = 5"
    by (elim exE conjE)
  obtain r' where r': "calculate_dynamic_ats_score [] None None [] = Inr r'"
    and sug: "suggestions r' =
           [''Add a GitHub profile link with pinned, recent projects.'',
            ''Include a LeetCode link to showcase DSA practice.'',
            ''Publish a simple portfolio with 2'' @ en_dash @ ''3 best projects.'',
            ''Add a public LinkedIn link (custom URL preferred).'']"
    using empty_report by (elim exE conjE)
  from r r' have "r = r'" by simp
  with five sug show False by simp
qed

subsection \<open>Presence tests\<close>

lemma sublist_lower:
  assumes "sublist a t"
  shows "sublist (lower a) (lower t)"
proof -
  from assms obtain ps ss where "t = ps @ a @ ss"
    unfolding sublist_def by (elim exE)
  then have "lower t = lower ps @ lower a @ lower ss"
    by (simp add: lower_def)
  then show ?thesis
    unfolding sublist_def by (intro exI)
qed

lemma lower_github: "lower ''github.com'' = ''github.com''"
  by (simp add: lower_def lower_char_def)

lemma nonzero_if: "((if c then (n::int) else 0) \<noteq> 0) = (c \<and> n \<noteq> 0)"
  by simp

text \<open>
  C8. The presence tests, read off the section scores (a presence-based section scores
  above 0 exactly when its test holds). In \<^verbatim>\<open>utils.py\<close> GitHub and LeetCode are present
  exactly when the caller supplies a non-empty user name, and the portfolio, LinkedIn and
  the certifications exactly when their pattern matches the text. In
  \<^verbatim>\<open>score_utils.py\<close> GitHub and LeetCode are present when the user name is supplied or
  the lower-cased text contains the domain, LinkedIn when a supplied link has the type
  LinkedIn or the lower-cased text contains \<open>linkedin.com/in/\<close>, and the portfolio and
  the certifications exactly when their pattern matches the text. In particular, in
  \<^verbatim>\<open>score_utils.py\<close> a text that contains \<open>github.com\<close> makes GitHub present with no
  user name supplied.
\<close>

theorem presence_tests:
  "(\<exists>r s1 s2 s3 s4 s5 s6.
      calculate_dynamic_ats_score resume_text github_username leetcode_username extracted_links = Inr r
      \<and> sections r =
            [(''GitHub Profile'', s1), (''LeetCode/DSA Skills'', s2), (''Portfolio Website'', s3),
             (''LinkedIn'', s4), (''Resume (ATS Score)'', s5), (''Certifications & Branding'', s6)]
      \<and> (score s1 \<noteq> 0 \<longleftrightarrow> truthy github_username)
      \<and> (score s2 \<noteq> 0 \<longleftrightarrow> truthy leetcode_username)
      \<and> (score s3 \<noteq> 0 \<longleftrightarrow> re_search portfolio_url_pattern resume_text)
      \<and> (score s4 \<noteq> 0 \<longleftrightarrow> re_search linkedin_pattern resume_text)
      \<and> (score s6 \<noteq> 0 \<longleftrightarrow> re_search cert_pattern resume_text))
   \<and> map (\<lambda>(k, s). (k, score_su s \<noteq> 0))
         (sections_su (calculate_dynamic_ats_score_su resume_text github_username leetcode_username
                         links domain)) =
       [(''GitHub Profile'', truthy github_username \<or> sublist ''github.com'' (lower resume_text)),
        (''LeetCode/DSA Skills'', truthy leetcode_username \<or> sublist ''leetcode.com'' (lower resume_text)),
        (''Portfolio Website'', re_search portfolio_pattern_su resume_text),
        (''LinkedIn'', has_link (get_or links []) ''LinkedIn''
                        \<or> sublist ''linkedin.com/in/'' (lower resume_text)),
        (''Resume (ATS Score)'', True),
        (''Certifications & Branding'', re_search cert_pattern_su resume_text)]
   \<and> (sublist ''github.com'' resume_text \<longrightarrow>
        map_option score_su
          (map_of (sections_su (calculate_dynamic_ats_score_su resume_text None leetcode_username
                                  links domain)) ''GitHub Profile'') = Some 70)"
proof -
  obtain r s1 s2 s3 s4 s5 s6 where
    eq: "calculate_dynamic_ats_score resume_text github_username leetcode_username extracted_links = Inr r"
    and secs: "sections r =
           [(''GitHub Profile'', s1), (''LeetCode/DSA Skills'', s2), (''Portfolio Website'', s3),
            (''LinkedIn'', s4), (''Resume (ATS Score)'', s5), (''Certifications & Branding'', s6)]"
    and sc: "score s1 = (if truthy github_username then 11 else 0)"
      "score s2 = (if truthy leetcode_username then 8 else 0)"
      "score s3 = (if re_search portfolio_url_pattern resume_text then 7 else 0)"
      "score s4 = (if re_search linkedin_pattern resume_text then 3 else 0)"
      "score s6 = (if re_search cert_pattern resume_text then 65 else 0)"
    using calculate_shape [of resume_text github_username leetcode_username extracted_links]
    by (elim exE conjE)
  have "(score s1 \<noteq> 0 \<longleftrightarrow> truthy github_username)"
    "(score s2 \<noteq> 0 \<longleftrightarrow> truthy leetcode_username)"
    "(score s3 \<noteq> 0 \<longleftrightarrow> re_search portfolio_url_pattern resume_text)"
    "(score s4 \<noteq> 0 \<longleftrightarrow> re_search linkedin_pattern resume_text)"
    "(score s6 \<noteq> 0 \<longleftrightarrow> re_search cert_pattern resume_text)"
    unfolding sc nonzero_if by simp_all
  with eq secs have u: "\<exists>r s1 s2 s3 s4 s5 s6.
      calculate_dynamic_ats_score resume_text github_username leetcode_username extracted_links = Inr r
      \<and> sections r =
            [(''GitHub Profile'', s1), (''LeetCode/DSA Skills'', s2), (''Portfolio Website'', s3),
             (''LinkedIn'', s4), (''Resume (ATS Score)'', s5), (''Certifications & Branding'', s6)]
      \<and> (score s1 \<noteq> 0 \<longleftrightarrow> truthy github_username)
      \<and> (score s2 \<noteq> 0 \<longleftrightarrow> truthy leetcode_username)
      \<and> (score s3 \<noteq> 0 \<longleftrightarrow> re_search portfolio_url_pattern resume_text)
      \<and> (score s4 \<noteq> 0 \<longleftrightarrow> re_search linkedin_pattern resume_text)
      \<and> (score s6 \<noteq> 0 \<longleftrightarrow> re_search cert_pattern resume_text)"
    by (intro exI [of _ r] exI [of _ s1] exI [of _ s2] exI [of _ s3] exI [of _ s4] exI [of _ s5]
          exI [of _ s6] conjI) assumption+
  have v: "map (\<lambda>(k, s). (k, score_su s \<noteq> 0))
         (sections_su (calculate_dynamic_ats_score_su resume_text github_username leetcode_username
                         links domain)) =
       [(''GitHub Profile'', truthy github_username \<or> sublist ''github.com'' (lower resume_text)),
        (''LeetCode/DSA Skills'', truthy leetcode_username \<or> sublist ''leetcode.com'' (lower resume_text)),
        (''Portfolio Website'', re_search portfolio_pattern_su resume_text),
        (''LinkedIn'', has_link (get_or links []) ''LinkedIn''
                        \<or> sublist ''linkedin.com/in/'' (lower resume_text)),
        (''Resume (ATS Score)'', True),
        (''Certifications & Branding'', re_search cert_pattern_su resume_text)]"
    unfolding calculate_su_sections sec_in_order list.map prod.case section_result_su.simps nonzero_if
    by simp
  have w: "sublist ''github.com'' resume_text \<longrightarrow>
        map_option score_su
          (map_of (sections_su (calculate_dynamic_ats_score_su resume_text None leetcode_username
                                  links domain)) ''GitHub Profile'') = Some 70"
  proof
    assume "sublist ''github.com'' resume_text"
    then have "sublist (lower ''github.com'') (lower resume_text)" by (rule sublist_lower)
    then have g: "sublist ''github.com'' (lower resume_text)" by (simp only: lower_github)
    show "map_option score_su
          (map_of (sections_su (calculate_dynamic_ats_score_su resume_text None leetcode_username
                                  links domain)) ''GitHub Profile'') = Some 70"
      unfolding calculate_su_sections sec_in_order using g by simp
  qed
  show ?thesis
    by (intro conjI) (rule u v w)+
qed


text \<open>The text \<open>see github.com/alice\<close> with no user name, in \<^verbatim>\<open>score_utils.py\<close>.\<close>

theorem presence_tests_witness:
  "sublist ''github.com'' ''see github.com/alice''
   \<and> map_option score_su
         (map_of (sections_su (calculate_dynamic_ats_score_su ''see github.com/alice'' None None
                                 None ''Technical'')) ''GitHub Profile'') = Some 70"
proof -
  have s: "sublist ''github.com'' ''see github.com/alice''"
    by code_simp
  have "sublist ''github.com'' ''see github.com/alice'' \<longrightarrow>
        map_option score_su
          (map_of (sections_su (calculate_dynamic_ats_score_su ''see github.com/alice'' None None
                                  None ''Technical'')) ''GitHub Profile'') = Some 70"
    using presence_tests [where resume_text = "''see github.com/alice''"
        and leetcode_username = None and links = None and domain = "''Technical''",
        THEN conjunct2, THEN conjunct2]
    by this
  with s show ?thesis by simp
qed

text \<open>
  The same text with no user name in \<^verbatim>\<open>utils.py\<close>: the GitHub section scores 0 and the
  first suggestion asks for a GitHub link.
\<close>

theorem github_presence_counterexample:
  "sublist ''github.com'' ''see github.com/alice''
   \<and> (\<exists>r. calculate_dynamic_ats_score ''see github.com/alice'' None None [] = Inr r
          \<and> map_option score (map_of (sections r) ''GitHub Profile'') = Some 0
          \<and> hd (suggestions r) = ''Add a GitHub profile link with pinned, recent projects.'')"
proof -
  have s: "sublist ''github.com'' ''see github.com/alice''"
    by code_simp
  have nt: "\<not> truthy None" by (simp add: truthy_def)
  obtain r s1 s2 s3 s4 s5 s6 where
    eq: "calculate_dynamic_ats_score ''see github.com/alice'' None None [] = Inr r"
    and secs: "sections r =
           [(''GitHub Profile'', s1), (''LeetCode/DSA Skills'', s2), (''Portfolio Website'', s3),
            (''LinkedIn'', s4), (''Resume (ATS Score)'', s5), (''Certifications & Branding'', s6)]"
    and sug: "suggestions r =
           [''Add a GitHub profile link with pinned, recent projects.'']
           @ [''Include a LeetCode link to showcase DSA practice.'']
           @ (if re_search portfolio_url_pattern ''see github.com/alice'' then []
              else [''Publish a simple portfolio with 2'' @ en_dash @ ''3 best projects.''])
           @ (if re_search linkedin_pattern ''see github.com/alice'' then []
              else [''Add a public LinkedIn link (custom URL preferred).''])"
    and sc: "score s1 = 0"
    using calculate_shape [of "''see github.com/alice''" None None "[]"]
    unfolding if_not_P [OF nt]
    by (elim exE conjE)
  have a: "map_option score (map_of (sections r) ''GitHub Profile'') = Some 0"
    unfolding secs using sc by simp
  have b: "hd (suggestions r) = ''Add a GitHub profile link with pinned, recent projects.''"
    unfolding sug by simp
  have "\<exists>r. calculate_dynamic_ats_score ''see github.com/alice'' None None [] = Inr r
          \<and> map_option score (map_of (sections r) ''GitHub Profile'') = Some 0
          \<and> hd (suggestions r) = ''Add a GitHub profile link with pinned, recent projects.''"
    by (intro exI [of _ r] conjI) (rule eq a b)+
  with s show ?thesis by (rule conjI)
qed

end
